theory Spec2Isabelle
  imports Complex_Main "HOL-Library.Sublist"
begin

section \<open>The UiPath Orchestrator client (src/src/uipath-client.ts)\<close>

text \<open>
  The client is a class whose methods await network calls. The embedding passes the
  mutable part of the instance (the cached token, its expiry), the wall clock and the
  list of network calls issued so far as an explicit \<open>state\<close>; the remote side
  (identity server, Orchestrator API) and the runtime's parsers are an \<open>env\<close> of
  functions, so every method is a function \<open>env \<Rightarrow> state \<Rightarrow> (error + result) \<times> state\<close>.
  A thrown \<open>Error\<close> is \<open>Inl\<close> of its message. Strings are byte strings; JavaScript
  numbers that hold counts, identifiers and millisecond timestamps are integers, and the
  success rates (floating point in the source) are exact reals.

  Names are the source's. Where a name is taken in HOL or shared by several records it
  carries a prefix: \<open>str_includes\<close> for \<^verbatim>\<open>includes\<close>, \<open>e_Id\<close>, \<open>e_State\<close>, ... for the
  fields of a remote record, \<open>qi_\<close>, \<open>j_\<close>, \<open>r_\<close> for the option objects of
  \<^verbatim>\<open>getQueueItems\<close>, \<^verbatim>\<open>getJobs\<close>, \<^verbatim>\<open>getRobots\<close>, and \<open>q_successRate\<close>,
  \<open>j_successRate\<close>, \<open>p_successRate\<close> for the \<^verbatim>\<open>successRate\<close> of the three statistics.
\<close>

subsection \<open>Strings\<close>

definition quote :: char where
  "quote = CHR 0x27"

text \<open>\<^verbatim>\<open>hay.includes(needle)\<close>\<close>

fun str_includes :: "string \<Rightarrow> string \<Rightarrow> bool" where
  "str_includes [] needle = (needle = [])"
| "str_includes (c # cs) needle = (prefix needle (c # cs) \<or> str_includes cs needle)"

text \<open>\<^verbatim>\<open>s.split(d)\<close> for a one-character separator\<close>

fun split :: "char \<Rightarrow> string \<Rightarrow> string list" where
  "split d [] = [[]]"
| "split d (c # cs) =
     (if c = d then [] # split d cs
      else (case split d cs of [] \<Rightarrow> [[c]] | p # ps \<Rightarrow> (c # p) # ps))"

text \<open>\<^verbatim>\<open>String(n)\<close> for an integer\<close>

definition digit_char :: "nat \<Rightarrow> char" where
  "digit_char d = char_of (48 + d)"

fun String_nat :: "nat \<Rightarrow> string" where
  "String_nat n =
     (if n < 10 then [digit_char n] else String_nat (n div 10) @ [digit_char (n mod 10)])"

definition String_int :: "int \<Rightarrow> string" where
  "String_int i = (if i < 0 then CHR ''-'' # String_nat (nat (- i)) else String_nat (nat i))"

text \<open>\<^verbatim>\<open>value.replace(/'/g, "''")\<close>\<close>

fun escapeODataString :: "string \<Rightarrow> string" where
  "escapeODataString [] = []"
| "escapeODataString (c # cs) =
     (if c = quote then quote # quote # escapeODataString cs else c # escapeODataString cs)"

text \<open>
  \<^verbatim>\<open>encodeURIComponent\<close> on the UTF-8 bytes of a well-formed string: the unreserved
  characters \<^verbatim>\<open>A-Z a-z 0-9 - _ . ! ~ * ' ( )\<close> stay, every other byte becomes
  \<^verbatim>\<open>%XX\<close> in upper-case hexadecimal.
\<close>

definition uri_unreserved :: "char \<Rightarrow> bool" where
  "uri_unreserved c =
     (let n = of_char c :: nat in
        (65 \<le> n \<and> n \<le> 90) \<or> (97 \<le> n \<and> n \<le> 122) \<or> (48 \<le> n \<and> n \<le> 57) \<or>
        c \<in> set ''-_.!~*()'' \<or> c = quote)"

definition hex_digit :: "nat \<Rightarrow> char" where
  "hex_digit d = (if d < 10 then char_of (48 + d) else char_of (55 + d))"

definition percent_encode :: "char \<Rightarrow> string" where
  "percent_encode c =
     (let n = of_char c :: nat in [CHR ''%'', hex_digit (n div 16), hex_digit (n mod 16)])"

fun encodeURIComponent :: "string \<Rightarrow> string" where
  "encodeURIComponent [] = []"
| "encodeURIComponent (c # cs) =
     (if uri_unreserved c then c # encodeURIComponent cs
      else percent_encode c @ encodeURIComponent cs)"

subsection \<open>Data model\<close>

datatype error = Error (message: string)

text \<open>\<^verbatim>\<open>UiPathConfig\<close> (types.ts)\<close>

record config =
  baseUrl :: string
  tenantName :: string
  clientId :: string
  clientSecret :: string
  defaultFolderId :: "int option"

text \<open>
  A record of a remote collection (QueueDefinition, QueueItem, Job, Release, Robot) with
  the fields the client reads.
\<close>

record entity =
  e_Id :: int
  e_Name :: string
  e_Key :: string
  e_State :: string
  e_StartTime :: "string option"
  e_EndTime :: "string option"

text \<open>\<^verbatim>\<open>ODataResponse<T>\<close>: the page and the optional \<^verbatim>\<open>@odata.count\<close>\<close>

record odata_response =
  odata_value :: "entity list"
  odata_count :: "nat option"

text \<open>\<^verbatim>\<open>Record<string, string>\<close> in insertion order\<close>

type_synonym params = "(string \<times> string) list"

text \<open>
  A network call as \<^verbatim>\<open>fetch\<close> receives it: the token exchange (identity URL, client
  id, client secret) or an API request (method, endpoint below the client's base URL,
  query parameters, the folder header, the bearer token). The modelled operations are
  all GET requests without a body.
\<close>

datatype call =
    TokenCall string string string
  | ApiCall string string "params option" "int option" string

text \<open>
  What a call comes back with: \<^verbatim>\<open>fetch\<close> or the body parser threw, a response that
  is not \<^verbatim>\<open>ok\<close> (status and body text), or the parsed JSON body.
\<close>

datatype token_reply =
    TokenThrown string
  | TokenHttpFail nat string
  | TokenOk string int

datatype api_reply =
    ApiThrown string
  | ApiHttpFail nat string
  | ApiOk odata_response

text \<open>\<^verbatim>\<open>new URL(s)\<close>: protocol, host and pathname, or nothing where it throws\<close>

record url =
  protocol :: string
  host :: string
  pathname :: string

text \<open>
  The environment: the URL and date parsers of the runtime, and the two servers. A
  server sees the calls issued before and the present call, and answers with a reply and
  the milliseconds the call took.
\<close>

record env =
  parseURL :: "string \<Rightarrow> url option"
  parseDate :: "string \<Rightarrow> int option"
  identity :: "call list \<Rightarrow> call \<Rightarrow> token_reply \<times> nat"
  api :: "call list \<Rightarrow> call \<Rightarrow> api_reply \<times> nat"

record state =
  accessToken :: "string option"
  tokenExpiresAt :: "int option"
  clock :: int
  calls :: "call list"

type_synonym 'a result = "(error + 'a) \<times> state"

subsection \<open>Token manager\<close>

definition getFolderId :: "config \<Rightarrow> int option \<Rightarrow> int option" where
  "getFolderId cfg folderId = (case folderId of Some f \<Rightarrow> Some f | None \<Rightarrow> defaultFolderId cfg)"

definition getIdentityUrl :: "config \<Rightarrow> env \<Rightarrow> error + string" where
  "getIdentityUrl cfg env =
     (case parseURL env (baseUrl cfg) of
        None \<Rightarrow> Inl (Error ''Invalid URL'')
      | Some u \<Rightarrow>
          (let pathParts = filter (\<lambda>p. p \<noteq> []) (split CHR ''/'' (pathname u));
               orgPath = (case pathParts of [] \<Rightarrow> [] | p # _ \<Rightarrow> CHR ''/'' # p)
           in Inr (protocol u @ ''//'' @ host u @ orgPath @ ''/identity_/connect/token'')))"

definition buffer :: int where
  "buffer = 5 * 60 * 1000"

text \<open>
  The guard of \<^verbatim>\<open>ensureToken\<close>: \<^verbatim>\<open>this.accessToken && this.tokenExpiresAt\<close> (an empty
  string is falsy, a Date object is truthy) and \<^verbatim>\<open>now < expiresAt - buffer\<close>.
\<close>

definition cachedToken :: "state \<Rightarrow> string option" where
  "cachedToken s =
     (case accessToken s of
        None \<Rightarrow> None
      | Some tok \<Rightarrow>
          (if tok = [] then None
           else (case tokenExpiresAt s of
                   None \<Rightarrow> None
                 | Some expiresAt \<Rightarrow> if clock s < expiresAt - buffer then Some tok else None)))"

definition ensureToken :: "config \<Rightarrow> env \<Rightarrow> state \<Rightarrow> string result" where
  "ensureToken cfg env s =
     (case cachedToken s of
        Some tok \<Rightarrow> (Inr tok, s)
      | None \<Rightarrow>
          (case getIdentityUrl cfg env of
             Inl e \<Rightarrow> (Inl e, s)
           | Inr identityUrl \<Rightarrow>
               (let c = TokenCall identityUrl (clientId cfg) (clientSecret cfg);
                    (reply, dt) = identity env (calls s) c;
                    s1 = s\<lparr>clock := clock s + int dt, calls := calls s @ [c]\<rparr>
                in case reply of
                     TokenThrown m \<Rightarrow> (Inl (Error m), s1)
                   | TokenHttpFail status body \<Rightarrow>
                       (Inl (Error (''Failed to obtain access token: '' @ body)), s1)
                   | TokenOk access_token expires_in \<Rightarrow>
                       (Inr access_token,
                        s1\<lparr>accessToken := Some access_token,
                           tokenExpiresAt := Some (clock s1 + expires_in * 1000)\<rparr>))))"

subsection \<open>Request executor\<close>

definition request ::
  "config \<Rightarrow> env \<Rightarrow> string \<Rightarrow> string \<Rightarrow> params option \<Rightarrow> int option \<Rightarrow> state
     \<Rightarrow> odata_response result" where
  "request cfg env method endpoint params folderId s =
     (case ensureToken cfg env s of
        (Inl e, s1) \<Rightarrow> (Inl e, s1)
      | (Inr token, s1) \<Rightarrow>
          (let c = ApiCall method endpoint params folderId token;
               (reply, dt) = api env (calls s1) c;
               s2 = s1\<lparr>clock := clock s1 + int dt, calls := calls s1 @ [c]\<rparr>
           in case reply of
                ApiThrown m \<Rightarrow> (Inl (Error m), s2)
              | ApiHttpFail status body \<Rightarrow>
                  (Inl (Error (''API request failed ('' @ String_nat status @ ''): '' @ body)), s2)
              | ApiOk data \<Rightarrow> (Inr data, s2)))"

subsection \<open>Query building\<close>

text \<open>\<^verbatim>\<open>x || d\<close> on an optional number and on an optional string; \<^verbatim>\<open>if (x)\<close> on an optional string\<close>

definition or_nat :: "nat option \<Rightarrow> nat \<Rightarrow> nat" where
  "or_nat x d = (case x of None \<Rightarrow> d | Some n \<Rightarrow> if n = 0 then d else n)"

definition or_str :: "string option \<Rightarrow> string \<Rightarrow> string" where
  "or_str x d = (case x of None \<Rightarrow> d | Some v \<Rightarrow> if v = [] then d else v)"

definition truthy :: "string option \<Rightarrow> string option" where
  "truthy x = (case x of None \<Rightarrow> None | Some v \<Rightarrow> if v = [] then None else Some v)"

text \<open>\<^verbatim>\<open>filters.join(sep)\<close>\<close>

fun join :: "string \<Rightarrow> string list \<Rightarrow> string" where
  "join sep [] = []"
| "join sep [x] = x"
| "join sep (x # y # ys) = x @ sep @ join sep (y # ys)"

text \<open>\<^verbatim>\<open>if (filters.length > 0) params.$filter = filters.join(" and ")\<close>\<close>

definition filterParam :: "string list \<Rightarrow> params" where
  "filterParam filters = (if length filters > 0 then [(''$filter'', join '' and '' filters)] else [])"

text \<open>The predicate \<^verbatim>\<open>Field eq '...'\<close> of a template literal\<close>

definition eq_pred :: "string \<Rightarrow> string \<Rightarrow> string" where
  "eq_pred field v = field @ '' eq '' @ [quote] @ v @ [quote]"

subsection \<open>Queue operations\<close>

definition getQueueDefinitions :: "config \<Rightarrow> env \<Rightarrow> int option \<Rightarrow> state \<Rightarrow> entity list result" where
  "getQueueDefinitions cfg env folderId s =
     (let effectiveFolderId = getFolderId cfg folderId in
      case request cfg env ''GET'' ''/odata/QueueDefinitions'' None effectiveFolderId s of
        (Inl e, s1) \<Rightarrow> (Inl e, s1)
      | (Inr data, s1) \<Rightarrow> (Inr (odata_value data), s1))"

definition getQueueDefinitionByName_params :: "string \<Rightarrow> params" where
  "getQueueDefinitionByName_params name = [(''$filter'', eq_pred ''Name'' (encodeURIComponent name))]"

definition getQueueDefinitionByName ::
  "config \<Rightarrow> env \<Rightarrow> string \<Rightarrow> int option \<Rightarrow> state \<Rightarrow> entity option result" where
  "getQueueDefinitionByName cfg env name folderId s =
     (let effectiveFolderId = getFolderId cfg folderId in
      case request cfg env ''GET'' ''/odata/QueueDefinitions''
             (Some (getQueueDefinitionByName_params name)) effectiveFolderId s of
        (Inl e, s1) \<Rightarrow> (Inl e, s1)
      | (Inr data, s1) \<Rightarrow> (Inr (case odata_value data of [] \<Rightarrow> None | q # _ \<Rightarrow> Some q), s1))"

record queue_items_options =
  qi_queueId :: "int option"
  qi_status :: "string option"
  qi_folderId :: "int option"
  qi_top :: "nat option"
  qi_skip :: "nat option"
  qi_orderBy :: "string option"

definition getQueueItems_buildParams :: "queue_items_options \<Rightarrow> bool \<Rightarrow> string option \<Rightarrow> params" where
  "getQueueItems_buildParams options includeCount orderBy =
     [(''$top'', String_nat (or_nat (qi_top options) 100)),
      (''$skip'', String_nat (or_nat (qi_skip options) 0))]
     @ (case truthy orderBy of None \<Rightarrow> [] | Some ob \<Rightarrow> [(''$orderby'', ob)])
     @ (if includeCount then [(''$count'', ''true'')] else [])
     @ filterParam
         ((case qi_queueId options of None \<Rightarrow> []
           | Some q \<Rightarrow> [''QueueDefinitionId eq '' @ String_int q])
          @ (case truthy (qi_status options) of None \<Rightarrow> []
             | Some st \<Rightarrow> [eq_pred ''Status'' st]))"

definition getQueueItems ::
  "config \<Rightarrow> env \<Rightarrow> queue_items_options \<Rightarrow> state \<Rightarrow> (entity list \<times> nat option) result" where
  "getQueueItems cfg env options s =
     (let effectiveFolderId = getFolderId cfg (qi_folderId options) in
      case request cfg env ''GET'' ''/odata/QueueItems''
             (Some (getQueueItems_buildParams options True
                      (Some (or_str (qi_orderBy options) ''CreationTime desc''))))
             effectiveFolderId s of
        (Inr data, s1) \<Rightarrow> (Inr (odata_value data, odata_count data), s1)
      | (Inl error, s1) \<Rightarrow>
          (if str_includes (message error) ''Invalid OData query options'' then
             (case request cfg env ''GET'' ''/odata/QueueItems''
                     (Some (getQueueItems_buildParams options False None)) effectiveFolderId s1 of
                (Inr data, s2) \<Rightarrow> (Inr (odata_value data, odata_count data), s2)
              | (Inl e, s2) \<Rightarrow> (Inl e, s2))
           else (Inl error, s1)))"

record queue_stats =
  queueId :: int
  queueName :: string
  totalItems :: nat
  newItems :: nat
  inProgressItems :: nat
  successfulItems :: nat
  failedItems :: nat
  abandonedItems :: nat
  q_successRate :: "real option"

definition queueStatuses :: "string list" where
  "queueStatuses = [''New'', ''InProgress'', ''Successful'', ''Failed'', ''Abandoned'']"

text \<open>The \<^verbatim>\<open>switch (status)\<close> of the loop body\<close>

definition setQueueCount :: "string \<Rightarrow> nat \<Rightarrow> queue_stats \<Rightarrow> queue_stats" where
  "setQueueCount status itemCount stats =
     (if status = ''New'' then stats\<lparr>newItems := itemCount\<rparr>
      else if status = ''InProgress'' then stats\<lparr>inProgressItems := itemCount\<rparr>
      else if status = ''Successful'' then stats\<lparr>successfulItems := itemCount\<rparr>
      else if status = ''Failed'' then stats\<lparr>failedItems := itemCount\<rparr>
      else if status = ''Abandoned'' then stats\<lparr>abandonedItems := itemCount\<rparr>
      else stats)"

fun queueStatsLoop ::
  "config \<Rightarrow> env \<Rightarrow> int \<Rightarrow> int option \<Rightarrow> string list \<Rightarrow> queue_stats \<Rightarrow> state
     \<Rightarrow> queue_stats result" where
  "queueStatsLoop cfg env qid fid [] stats s = (Inr stats, s)"
| "queueStatsLoop cfg env qid fid (status # rest) stats s =
     (case getQueueItems cfg env
             \<lparr>qi_queueId = Some qid, qi_status = Some status, qi_folderId = fid,
              qi_top = Some 1, qi_skip = None, qi_orderBy = None\<rparr> s of
        (Inl e, s1) \<Rightarrow> (Inl e, s1)
      | (Inr (items, count), s1) \<Rightarrow>
          (let itemCount = (case count of None \<Rightarrow> 0 | Some n \<Rightarrow> n)
           in queueStatsLoop cfg env qid fid rest
                (setQueueCount status itemCount
                   (stats\<lparr>totalItems := totalItems stats + itemCount\<rparr>)) s1))"

definition getQueueStats ::
  "config \<Rightarrow> env \<Rightarrow> int \<Rightarrow> string \<Rightarrow> int option \<Rightarrow> state \<Rightarrow> queue_stats result" where
  "getQueueStats cfg env qid qname folderId s =
     (let effectiveFolderId = getFolderId cfg folderId;
          stats0 = \<lparr>queueId = qid, queueName = qname, totalItems = 0, newItems = 0,
                    inProgressItems = 0, successfulItems = 0, failedItems = 0,
                    abandonedItems = 0, q_successRate = None\<rparr>
      in case queueStatsLoop cfg env qid effectiveFolderId queueStatuses stats0 s of
           (Inl e, s1) \<Rightarrow> (Inl e, s1)
         | (Inr stats, s1) \<Rightarrow>
             (let completed = successfulItems stats + failedItems stats
              in if completed > 0
                 then (Inr (stats\<lparr>q_successRate :=
                              Some (real (successfulItems stats) / real completed * 100)\<rparr>), s1)
                 else (Inr stats, s1)))"

subsection \<open>Robots, logs, audit\<close>

record robots_options =
  r_folderId :: "int option"
  r_top :: "nat option"
  r_skip :: "nat option"
  r_orderBy :: "string option"

text \<open>
  The route of \<^verbatim>\<open>getRobots\<close>: \<^verbatim>\<open>effectiveFolderId ? `...GetRobotsFromFolder(folderId=${effectiveFolderId})` : "/odata/Robots"\<close>
  (the number 0 is falsy).
\<close>

definition getRobots_endpoint :: "int option \<Rightarrow> string" where
  "getRobots_endpoint effectiveFolderId =
     (case effectiveFolderId of
        None \<Rightarrow> ''/odata/Robots''
      | Some f \<Rightarrow>
          if f \<noteq> 0
          then ''/odata/Robots/UiPath.Server.Configuration.OData.GetRobotsFromFolder(folderId=''
                 @ String_int f @ '')''
          else ''/odata/Robots'')"

definition getRobots ::
  "config \<Rightarrow> env \<Rightarrow> robots_options \<Rightarrow> state \<Rightarrow> (entity list \<times> nat option) result" where
  "getRobots cfg env options s =
     (let effectiveFolderId = getFolderId cfg (r_folderId options);
          params = [(''$top'', String_nat (or_nat (r_top options) 100)),
                    (''$skip'', String_nat (or_nat (r_skip options) 0)),
                    (''$orderby'', or_str (r_orderBy options) ''Name asc''),
                    (''$count'', ''true'')];
          endpoint = getRobots_endpoint effectiveFolderId
      in case request cfg env ''GET'' endpoint (Some params) None s of
           (Inl e, s1) \<Rightarrow> (Inl e, s1)
         | (Inr data, s1) \<Rightarrow> (Inr (odata_value data, odata_count data), s1))"

text \<open>The \<^verbatim>\<open>$filter\<close> that \<^verbatim>\<open>getRobotLogs\<close> builds from its options\<close>

definition getRobotLogs_filters ::
  "string option \<Rightarrow> string option \<Rightarrow> string option \<Rightarrow> string option \<Rightarrow> string list" where
  "getRobotLogs_filters jobKey level startTime endTime =
     (case truthy jobKey of None \<Rightarrow> [] | Some k \<Rightarrow> [eq_pred ''JobKey'' (encodeURIComponent k)])
     @ (case truthy level of None \<Rightarrow> [] | Some l \<Rightarrow> [eq_pred ''Level'' (encodeURIComponent l)])
     @ (case truthy startTime of None \<Rightarrow> [] | Some t \<Rightarrow> [''TimeStamp ge '' @ t])
     @ (case truthy endTime of None \<Rightarrow> [] | Some t \<Rightarrow> [''TimeStamp le '' @ t])"

text \<open>The \<^verbatim>\<open>$filter\<close> that \<^verbatim>\<open>getAuditLogs\<close> builds from its options\<close>

definition getAuditLogs_filters ::
  "string option \<Rightarrow> string option \<Rightarrow> string option \<Rightarrow> string option \<Rightarrow> string option
     \<Rightarrow> string list" where
  "getAuditLogs_filters action userName component startTime endTime =
     (case truthy action of None \<Rightarrow> [] | Some a \<Rightarrow> [eq_pred ''Action'' (escapeODataString a)])
     @ (case truthy userName of None \<Rightarrow> [] | Some u \<Rightarrow> [eq_pred ''UserName'' (escapeODataString u)])
     @ (case truthy component of None \<Rightarrow> []
        | Some c \<Rightarrow> [eq_pred ''Component'' (escapeODataString c)])
     @ (case truthy startTime of None \<Rightarrow> [] | Some t \<Rightarrow> [''ExecutionTime ge '' @ t])
     @ (case truthy endTime of None \<Rightarrow> [] | Some t \<Rightarrow> [''ExecutionTime le '' @ t])"

text \<open>The \<^verbatim>\<open>$filter\<close> that \<^verbatim>\<open>getFaultedJobs\<close> builds from its options\<close>

definition getFaultedJobs_filters ::
  "string option \<Rightarrow> string option \<Rightarrow> string option \<Rightarrow> string list" where
  "getFaultedJobs_filters releaseName startTime endTime =
     [''State eq '' @ [quote] @ ''Faulted'' @ [quote]]
     @ (case truthy releaseName of None \<Rightarrow> []
        | Some r \<Rightarrow> [eq_pred ''ReleaseName'' (escapeODataString r)])
     @ (case truthy startTime of None \<Rightarrow> [] | Some t \<Rightarrow> [''CreationTime ge '' @ t])
     @ (case truthy endTime of None \<Rightarrow> [] | Some t \<Rightarrow> [''CreationTime le '' @ t])"

subsection \<open>Job operations\<close>

record jobs_options =
  j_state :: "string option"
  j_releaseName :: "string option"
  j_folderId :: "int option"
  j_top :: "nat option"
  j_skip :: "nat option"
  j_orderBy :: "string option"

definition getJobs_buildParams :: "jobs_options \<Rightarrow> bool \<Rightarrow> string option \<Rightarrow> params" where
  "getJobs_buildParams options includeCount orderBy =
     [(''$top'', String_nat (or_nat (j_top options) 100)),
      (''$skip'', String_nat (or_nat (j_skip options) 0))]
     @ (case truthy orderBy of None \<Rightarrow> [] | Some ob \<Rightarrow> [(''$orderby'', ob)])
     @ (if includeCount then [(''$count'', ''true'')] else [])
     @ filterParam
         ((case truthy (j_state options) of None \<Rightarrow> [] | Some st \<Rightarrow> [eq_pred ''State'' st])
          @ (case truthy (j_releaseName options) of None \<Rightarrow> []
             | Some r \<Rightarrow> [eq_pred ''ReleaseName'' (encodeURIComponent r)]))"

definition getJobs ::
  "config \<Rightarrow> env \<Rightarrow> jobs_options \<Rightarrow> state \<Rightarrow> (entity list \<times> nat option) result" where
  "getJobs cfg env options s =
     (let effectiveFolderId = getFolderId cfg (j_folderId options) in
      case request cfg env ''GET'' ''/odata/Jobs''
             (Some (getJobs_buildParams options True
                      (Some (or_str (j_orderBy options) ''CreationTime desc''))))
             effectiveFolderId s of
        (Inr data, s1) \<Rightarrow> (Inr (odata_value data, odata_count data), s1)
      | (Inl error, s1) \<Rightarrow>
          (if str_includes (message error) ''Invalid OData query options'' then
             (case request cfg env ''GET'' ''/odata/Jobs''
                     (Some (getJobs_buildParams options False None)) effectiveFolderId s1 of
                (Inr data, s2) \<Rightarrow> (Inr (odata_value data, odata_count data), s2)
              | (Inl e, s2) \<Rightarrow> (Inl e, s2))
           else (Inl error, s1)))"

record job_stats =
  totalJobs :: nat
  pendingJobs :: nat
  runningJobs :: nat
  successfulJobs :: nat
  faultedJobs :: nat
  stoppedJobs :: nat
  j_successRate :: "real option"

definition jobStates :: "string list" where
  "jobStates = [''Pending'', ''Running'', ''Successful'', ''Faulted'', ''Stopped'', ''Terminated'']"

text \<open>The \<^verbatim>\<open>switch (state)\<close> of the per-state loop\<close>

definition setJobCount :: "string \<Rightarrow> nat \<Rightarrow> job_stats \<Rightarrow> job_stats" where
  "setJobCount st count stats =
     (if st = ''Pending'' then stats\<lparr>pendingJobs := count\<rparr>
      else if st = ''Running'' then stats\<lparr>runningJobs := count\<rparr>
      else if st = ''Successful'' then stats\<lparr>successfulJobs := count\<rparr>
      else if st = ''Faulted'' then stats\<lparr>faultedJobs := count\<rparr>
      else if st = ''Stopped'' \<or> st = ''Terminated''
        then stats\<lparr>stoppedJobs := stoppedJobs stats + count\<rparr>
      else stats)"

text \<open>
  The \<^verbatim>\<open>try { for (const state of states) ... } catch { useFallback = true }\<close> block:
  the result is \<^verbatim>\<open>useFallback\<close> and the counters as the loop left them.
\<close>

fun jobStatsLoop ::
  "config \<Rightarrow> env \<Rightarrow> int option \<Rightarrow> string list \<Rightarrow> job_stats \<Rightarrow> state
     \<Rightarrow> (bool \<times> job_stats) \<times> state" where
  "jobStatsLoop cfg env fid [] stats s = ((False, stats), s)"
| "jobStatsLoop cfg env fid (st # rest) stats s =
     (case getJobs cfg env
             \<lparr>j_state = Some st, j_releaseName = None, j_folderId = fid,
              j_top = Some 1, j_skip = None, j_orderBy = None\<rparr> s of
        (Inl e, s1) \<Rightarrow> ((True, stats), s1)
      | (Inr (jobs, count), s1) \<Rightarrow>
          (case count of
             None \<Rightarrow> ((True, stats), s1)
           | Some n \<Rightarrow>
               jobStatsLoop cfg env fid rest
                 (setJobCount st n (stats\<lparr>totalJobs := totalJobs stats + n\<rparr>)) s1))"

text \<open>The \<^verbatim>\<open>switch (job.State)\<close> of the fallback loop\<close>

definition countJob :: "entity \<Rightarrow> job_stats \<Rightarrow> job_stats" where
  "countJob job stats =
     (if e_State job = ''Pending'' then stats\<lparr>pendingJobs := pendingJobs stats + 1\<rparr>
      else if e_State job = ''Running'' then stats\<lparr>runningJobs := runningJobs stats + 1\<rparr>
      else if e_State job = ''Successful'' then stats\<lparr>successfulJobs := successfulJobs stats + 1\<rparr>
      else if e_State job = ''Faulted'' then stats\<lparr>faultedJobs := faultedJobs stats + 1\<rparr>
      else if e_State job = ''Stopped'' \<or> e_State job = ''Terminated''
        then stats\<lparr>stoppedJobs := stoppedJobs stats + 1\<rparr>
      else stats)"

fun tallyJobs :: "entity list \<Rightarrow> job_stats \<Rightarrow> job_stats" where
  "tallyJobs [] stats = stats"
| "tallyJobs (job # jobs) stats = tallyJobs jobs (countJob job stats)"

definition jobSuccessRate :: "job_stats \<Rightarrow> job_stats" where
  "jobSuccessRate stats =
     (let completed = successfulJobs stats + faultedJobs stats
      in if completed > 0
         then stats\<lparr>j_successRate := Some (real (successfulJobs stats) / real completed * 100)\<rparr>
         else stats)"

definition getJobStats :: "config \<Rightarrow> env \<Rightarrow> int option \<Rightarrow> state \<Rightarrow> job_stats result" where
  "getJobStats cfg env folderId s =
     (let effectiveFolderId = getFolderId cfg folderId;
          stats0 = \<lparr>totalJobs = 0, pendingJobs = 0, runningJobs = 0, successfulJobs = 0,
                    faultedJobs = 0, stoppedJobs = 0, j_successRate = None\<rparr>
      in case jobStatsLoop cfg env effectiveFolderId jobStates stats0 s of
           ((useFallback, stats), s1) \<Rightarrow>
             if useFallback then
               (let reset = stats\<lparr>totalJobs := 0, pendingJobs := 0, runningJobs := 0,
                                 successfulJobs := 0, faultedJobs := 0, stoppedJobs := 0\<rparr>
                in case getJobs cfg env
                          \<lparr>j_state = None, j_releaseName = None, j_folderId = effectiveFolderId,
                           j_top = Some 1000, j_skip = None, j_orderBy = None\<rparr> s1 of
                     (Inl e, s2) \<Rightarrow> (Inl e, s2)
                   | (Inr (jobs, count), s2) \<Rightarrow>
                       (Inr (jobSuccessRate (tallyJobs jobs (reset\<lparr>totalJobs := length jobs\<rparr>))),
                        s2))
             else (Inr (jobSuccessRate stats), s1))"

subsection \<open>Release operations\<close>

definition getReleases ::
  "config \<Rightarrow> env \<Rightarrow> string option \<Rightarrow> int option \<Rightarrow> state \<Rightarrow> entity list result" where
  "getReleases cfg env processKey folderId s =
     (let effectiveFolderId = getFolderId cfg folderId;
          params = (case truthy processKey of
                      None \<Rightarrow> []
                    | Some k \<Rightarrow> [(''$filter'', eq_pred ''ProcessKey'' (encodeURIComponent k))])
      in case request cfg env ''GET'' ''/odata/Releases'' (Some params) effectiveFolderId s of
           (Inl e, s1) \<Rightarrow> (Inl e, s1)
         | (Inr data, s1) \<Rightarrow> (Inr (odata_value data), s1))"

definition findReleaseByNameOrKey ::
  "config \<Rightarrow> env \<Rightarrow> string \<Rightarrow> int option \<Rightarrow> state \<Rightarrow> entity option result" where
  "findReleaseByNameOrKey cfg env nameOrKey folderId s =
     (let effectiveFolderId = getFolderId cfg folderId in
      case getReleases cfg env (Some nameOrKey) effectiveFolderId s of
        (Inl e, s1) \<Rightarrow> (Inl e, s1)
      | (Inr releasesByKey, s1) \<Rightarrow>
          (case releasesByKey of
             r # _ \<Rightarrow> (Inr (Some r), s1)
           | [] \<Rightarrow>
               (let params = [(''$filter'', eq_pred ''Name'' (escapeODataString nameOrKey))]
                in case request cfg env ''GET'' ''/odata/Releases'' (Some params)
                          effectiveFolderId s1 of
                     (Inl e, s2) \<Rightarrow> (Inl e, s2)
                   | (Inr data, s2) \<Rightarrow>
                       (Inr (case odata_value data of [] \<Rightarrow> None | r # _ \<Rightarrow> Some r), s2))))"

subsection \<open>Dashboard\<close>

text \<open>\<^verbatim>\<open>queueItemsByStatus\<close> and \<^verbatim>\<open>jobsByState\<close>, objects with fixed keys\<close>

record items_by_status =
  items_New :: nat
  items_InProgress :: nat
  items_Successful :: nat
  items_Failed :: nat

record jobs_by_state =
  jobs_Pending :: nat
  jobs_Running :: nat
  jobs_Successful :: nat
  jobs_Faulted :: nat
  jobs_Stopped :: nat

record dashboard =
  totalQueues :: nat
  totalQueueItems :: nat
  queueItemsByStatus :: items_by_status
  d_totalJobs :: nat
  jobsByState :: jobs_by_state
  activeJobs :: nat
  successRateJobs :: "real option"
  successRateQueues :: "real option"

text \<open>
  \<^verbatim>\<open>for (const queue of queues.slice(0, 5)) { ... }\<close>, over the sliced list: the
  accumulators are \<^verbatim>\<open>queueItemsByStatus\<close> and \<^verbatim>\<open>totalQueueItems\<close>.
\<close>

fun dashboardLoop ::
  "config \<Rightarrow> env \<Rightarrow> int option \<Rightarrow> entity list \<Rightarrow> items_by_status \<times> nat \<Rightarrow> state
     \<Rightarrow> (items_by_status \<times> nat) result" where
  "dashboardLoop cfg env fid [] acc s = (Inr acc, s)"
| "dashboardLoop cfg env fid (queue # rest) (byStatus, totalItems0) s =
     (case getQueueStats cfg env (e_Id queue) (e_Name queue) fid s of
        (Inl e, s1) \<Rightarrow> (Inl e, s1)
      | (Inr stats, s1) \<Rightarrow>
          dashboardLoop cfg env fid rest
            (byStatus\<lparr>items_New := items_New byStatus + newItems stats,
                       items_InProgress := items_InProgress byStatus + inProgressItems stats,
                       items_Successful := items_Successful byStatus + successfulItems stats,
                       items_Failed := items_Failed byStatus + failedItems stats\<rparr>,
             totalItems0 + totalItems stats) s1)"

definition getDashboardSummary :: "config \<Rightarrow> env \<Rightarrow> int option \<Rightarrow> state \<Rightarrow> dashboard result" where
  "getDashboardSummary cfg env folderId s =
     (let effectiveFolderId = getFolderId cfg folderId in
      case getQueueDefinitions cfg env effectiveFolderId s of
        (Inl e, s1) \<Rightarrow> (Inl e, s1)
      | (Inr queues, s1) \<Rightarrow>
          (case getJobStats cfg env effectiveFolderId s1 of
             (Inl e, s2) \<Rightarrow> (Inl e, s2)
           | (Inr jobStats, s2) \<Rightarrow>
               (case dashboardLoop cfg env effectiveFolderId (take 5 queues)
                       (\<lparr>items_New = 0, items_InProgress = 0, items_Successful = 0,
                         items_Failed = 0\<rparr>, 0) s2 of
                  (Inl e, s3) \<Rightarrow> (Inl e, s3)
                | (Inr (byStatus, totalItems5), s3) \<Rightarrow>
                    (let completedItems = items_Successful byStatus + items_Failed byStatus
                     in (Inr \<lparr>totalQueues = length queues,
                              totalQueueItems = totalItems5,
                              queueItemsByStatus = byStatus,
                              d_totalJobs = totalJobs jobStats,
                              jobsByState =
                                \<lparr>jobs_Pending = pendingJobs jobStats,
                                 jobs_Running = runningJobs jobStats,
                                 jobs_Successful = successfulJobs jobStats,
                                 jobs_Faulted = faultedJobs jobStats,
                                 jobs_Stopped = stoppedJobs jobStats\<rparr>,
                              activeJobs = pendingJobs jobStats + runningJobs jobStats,
                              successRateJobs = j_successRate jobStats,
                              successRateQueues =
                                (if completedItems > 0
                                 then Some (real (items_Successful byStatus)
                                              / real completedItems * 100)
                                 else None)\<rparr>, s3)))))"

subsection \<open>Durations and process performance\<close>

text \<open>\<^verbatim>\<open>Math.round\<close>: the nearest integer, a half rounding up\<close>

definition Math_round :: "real \<Rightarrow> int" where
  "Math_round x = \<lfloor>x + 1 / 2\<rfloor>"

text \<open>
  \<^verbatim>\<open>new Date(str).getTime()\<close> is the environment's \<open>parseDate\<close>: the milliseconds, or
  nothing for \<^verbatim>\<open>NaN\<close>. \<^verbatim>\<open>!startTime\<close> holds for \<^verbatim>\<open>null\<close> and for the empty string.
\<close>

definition computeDuration :: "env \<Rightarrow> string option \<Rightarrow> string option \<Rightarrow> int option" where
  "computeDuration env startTime endTime =
     (case truthy startTime of
        None \<Rightarrow> None
      | Some st \<Rightarrow>
          (case truthy endTime of
             None \<Rightarrow> None
           | Some en \<Rightarrow>
               (case parseDate env st of
                  None \<Rightarrow> None
                | Some start \<Rightarrow>
                    (case parseDate env en of
                       None \<Rightarrow> None
                     | Some end_ms \<Rightarrow> Some (Math_round (real_of_int (end_ms - start) / 1000))))))"

record process_performance =
  processName :: string
  totalExecutions :: nat
  successful :: nat
  faulted :: nat
  stopped :: nat
  running :: nat
  pending :: nat
  p_successRate :: "real option"
  avgDurationSeconds :: "int option"
  minDurationSeconds :: "int option"
  maxDurationSeconds :: "int option"
  recentJobs :: "entity list"

text \<open>\<^verbatim>\<open>.map(j => this.computeDuration(j.StartTime, j.EndTime)).filter(d => d !== null)\<close>\<close>

fun durationsOf :: "env \<Rightarrow> entity list \<Rightarrow> int list" where
  "durationsOf env [] = []"
| "durationsOf env (j # js) =
     (case computeDuration env (e_StartTime j) (e_EndTime j) of
        None \<Rightarrow> durationsOf env js
      | Some d \<Rightarrow> d # durationsOf env js)"

definition getProcessPerformance ::
  "config \<Rightarrow> env \<Rightarrow> string \<Rightarrow> int option \<Rightarrow> nat option \<Rightarrow> state
     \<Rightarrow> process_performance result" where
  "getProcessPerformance cfg env pname folderId topN s =
     (let effectiveFolderId = getFolderId cfg folderId in
      case getJobs cfg env
             \<lparr>j_state = None, j_releaseName = Some pname, j_folderId = effectiveFolderId,
              j_top = Some (or_nat topN 100), j_skip = None, j_orderBy = None\<rparr> s of
        (Inl e, s1) \<Rightarrow> (Inl e, s1)
      | (Inr (jobs, count), s1) \<Rightarrow>
          (let successfulJ = filter (\<lambda>j. e_State j = ''Successful'') jobs;
               faultedJ = filter (\<lambda>j. e_State j = ''Faulted'') jobs;
               stoppedJ = filter (\<lambda>j. e_State j = ''Stopped'' \<or> e_State j = ''Terminated'') jobs;
               runningJ = filter (\<lambda>j. e_State j = ''Running'') jobs;
               pendingJ = filter (\<lambda>j. e_State j = ''Pending'') jobs;
               durations = durationsOf env successfulJ;
               completed = length successfulJ + length faultedJ
           in (Inr \<lparr>processName = pname,
                    totalExecutions = length jobs,
                    successful = length successfulJ,
                    faulted = length faultedJ,
                    stopped = length stoppedJ,
                    running = length runningJ,
                    pending = length pendingJ,
                    p_successRate =
                      (if completed > 0
                       then Some (real (length successfulJ) / real completed * 100) else None),
                    avgDurationSeconds =
                      (if length durations > 0
                       then Some (Math_round (real_of_int (fold (+) durations 0)
                                                / real (length durations)))
                       else None),
                    minDurationSeconds =
                      (case durations of [] \<Rightarrow> None | d # ds \<Rightarrow> Some (fold min ds d)),
                    maxDurationSeconds =
                      (case durations of [] \<Rightarrow> None | d # ds \<Rightarrow> Some (fold max ds d)),
                    recentJobs = take 10 jobs\<rparr>, s1)))"

section \<open>Notions of the specification\<close>

text \<open>
  What the statements about the client are phrased with: the notions of the specification
  and the runs of sub-requests that the composite operations are compared with.
\<close>

subsection \<open>Usable tokens\<close>

text \<open>
  The invariant of the credential state (section 3 of the specification): a cached token is usable only while
  \<open>now < expiresAt - 5 min\<close>. A token is cached when \<^verbatim>\<open>accessToken\<close> holds a non-empty
  string and \<^verbatim>\<open>tokenExpiresAt\<close> a date.
\<close>

definition tokenUsable :: "state \<Rightarrow> bool" where
  "tokenUsable s =
     (case accessToken s of
        None \<Rightarrow> False
      | Some tok \<Rightarrow> tok \<noteq> [] \<and>
          (case tokenExpiresAt s of
             None \<Rightarrow> False
           | Some expiresAt \<Rightarrow> clock s < expiresAt - 5 * 60 * 1000))"

subsection \<open>Quote doubling\<close>

text \<open>What doubling every single quote of a value gives\<close>

definition quotesDoubled :: "string \<Rightarrow> string" where
  "quotesDoubled v = concat (map (\<lambda>c. if c = quote then [quote, quote] else [c]) v)"

subsection \<open>The fallback policy\<close>

text \<open>
  The two queries: the full one with \<^verbatim>\<open>$top\<close>, \<^verbatim>\<open>$skip\<close>, \<^verbatim>\<open>$orderby\<close> (creation
  time descending unless the caller orders) and \<^verbatim>\<open>$count=true\<close>, and the reduced one
  without \<^verbatim>\<open>$orderby\<close> and \<^verbatim>\<open>$count\<close>; both end with the filter, if there is one.
\<close>

definition fullQuery :: "nat option \<Rightarrow> nat option \<Rightarrow> string option \<Rightarrow> params \<Rightarrow> params" where
  "fullQuery topN skipN orderBy filt =
     [(''$top'', String_nat (or_nat topN 100)), (''$skip'', String_nat (or_nat skipN 0)),
      (''$orderby'', or_str orderBy ''CreationTime desc''), (''$count'', ''true'')] @ filt"

definition reducedQuery :: "nat option \<Rightarrow> nat option \<Rightarrow> params \<Rightarrow> params" where
  "reducedQuery topN skipN filt =
     [(''$top'', String_nat (or_nat topN 100)), (''$skip'', String_nat (or_nat skipN 0))] @ filt"

text \<open>
  The policy, as the code has it: the full query first; a failure whose message holds
  \<^verbatim>\<open>Invalid OData query options\<close> is answered by one request with the reduced query,
  whose page, count and failure are the result; any other failure is the result.
\<close>

definition retryOnInvalidOptions ::
  "config \<Rightarrow> env \<Rightarrow> string \<Rightarrow> params \<Rightarrow> params \<Rightarrow> int option \<Rightarrow> state
     \<Rightarrow> (entity list \<times> nat option) result" where
  "retryOnInvalidOptions cfg env endpoint full reduced fid s =
     (case request cfg env ''GET'' endpoint (Some full) fid s of
        (Inr data, s1) \<Rightarrow> (Inr (odata_value data, odata_count data), s1)
      | (Inl error, s1) \<Rightarrow>
          if str_includes (message error) ''Invalid OData query options''
          then (case request cfg env ''GET'' endpoint (Some reduced) fid s1 of
                  (Inr data, s2) \<Rightarrow> (Inr (odata_value data, odata_count data), s2)
                | (Inl e, s2) \<Rightarrow> (Inl e, s2))
          else (Inl error, s1))"

text \<open>The \<^verbatim>\<open>$filter\<close> parameter of the two operations\<close>

definition queueItemsFilter :: "queue_items_options \<Rightarrow> params" where
  "queueItemsFilter options =
     filterParam
       ((case qi_queueId options of None \<Rightarrow> []
         | Some q \<Rightarrow> [''QueueDefinitionId eq '' @ String_int q])
        @ (case truthy (qi_status options) of None \<Rightarrow> [] | Some st \<Rightarrow> [eq_pred ''Status'' st]))"

definition jobsFilter :: "jobs_options \<Rightarrow> params" where
  "jobsFilter options =
     filterParam
       ((case truthy (j_state options) of None \<Rightarrow> [] | Some st \<Rightarrow> [eq_pred ''State'' st])
        @ (case truthy (j_releaseName options) of None \<Rightarrow> []
           | Some r \<Rightarrow> [eq_pred ''ReleaseName'' (encodeURIComponent r)]))"

subsection \<open>Per-status counts\<close>

text \<open>
  The five per-status queries of \<^verbatim>\<open>getQueueStats\<close> run on their own, in order, keeping
  the count of each response as it came (possibly unknown); a failing query ends the run.
\<close>

fun statusCounts ::
  "config \<Rightarrow> env \<Rightarrow> int \<Rightarrow> int option \<Rightarrow> string list \<Rightarrow> state \<Rightarrow> nat option list result" where
  "statusCounts cfg env qid fid [] s = (Inr [], s)"
| "statusCounts cfg env qid fid (status # rest) s =
     (case getQueueItems cfg env
             \<lparr>qi_queueId = Some qid, qi_status = Some status, qi_folderId = fid,
              qi_top = Some 1, qi_skip = None, qi_orderBy = None\<rparr> s of
        (Inl e, s1) \<Rightarrow> (Inl e, s1)
      | (Inr (items, count), s1) \<Rightarrow>
          (case statusCounts cfg env qid fid rest s1 of
             (Inl e, s2) \<Rightarrow> (Inl e, s2)
           | (Inr counts, s2) \<Rightarrow> (Inr (count # counts), s2)))"

definition zeroIfUnknown :: "nat option \<Rightarrow> nat" where
  "zeroIfUnknown c = (case c of None \<Rightarrow> 0 | Some n \<Rightarrow> n)"

text \<open>The statistics that five known counts give\<close>

definition statsOfCounts :: "int \<Rightarrow> string \<Rightarrow> nat \<Rightarrow> nat \<Rightarrow> nat \<Rightarrow> nat \<Rightarrow> nat \<Rightarrow> queue_stats" where
  "statsOfCounts qid qname n p su f a =
     \<lparr>queueId = qid, queueName = qname, totalItems = n + p + su + f + a, newItems = n,
      inProgressItems = p, successfulItems = su, failedItems = f, abandonedItems = a,
      q_successRate = (if su + f > 0 then Some (real su / real (su + f) * 100) else None)\<rparr>"

fun applyCounts :: "string list \<Rightarrow> nat option list \<Rightarrow> queue_stats \<Rightarrow> queue_stats" where
  "applyCounts (st # sts) (c # cs) stats =
     applyCounts sts cs
       (setQueueCount st (zeroIfUnknown c)
          (stats\<lparr>totalItems := totalItems stats + zeroIfUnknown c\<rparr>))"
| "applyCounts sts cs stats = stats"

subsection \<open>Success rate\<close>

text \<open>
  The rate of the specification: null without completed outcomes, otherwise the successful
  share of the completed ones in percent.
\<close>

definition successRateOf :: "nat \<Rightarrow> nat \<Rightarrow> real option" where
  "successRateOf good bad =
     (if good + bad = 0 then None else Some (real good / real (good + bad) * 100))"

subsection \<open>Per-state queries and the client-side tally\<close>

text \<open>
  The per-state count queries on their own, in order, up to the first one that fails or
  returns no count: the result says whether there was one, and gives the state after the
  last query issued.
\<close>

fun perStateQueries ::
  "config \<Rightarrow> env \<Rightarrow> int option \<Rightarrow> string list \<Rightarrow> state \<Rightarrow> bool \<times> state" where
  "perStateQueries cfg env fid [] s = (False, s)"
| "perStateQueries cfg env fid (st # rest) s =
     (case getJobs cfg env
             \<lparr>j_state = Some st, j_releaseName = None, j_folderId = fid,
              j_top = Some 1, j_skip = None, j_orderBy = None\<rparr> s of
        (Inl e, s1) \<Rightarrow> (True, s1)
      | (Inr (jobs, None), s1) \<Rightarrow> (True, s1)
      | (Inr (jobs, Some n), s1) \<Rightarrow> perStateQueries cfg env fid rest s1)"

text \<open>The client-side tally of a list of job records\<close>

definition countState :: "string \<Rightarrow> entity list \<Rightarrow> nat" where
  "countState st jobs = length (filter (\<lambda>j. e_State j = st) jobs)"

definition clientTally :: "entity list \<Rightarrow> job_stats" where
  "clientTally jobs =
     \<lparr>totalJobs = length jobs,
      pendingJobs = countState ''Pending'' jobs,
      runningJobs = countState ''Running'' jobs,
      successfulJobs = countState ''Successful'' jobs,
      faultedJobs = countState ''Faulted'' jobs,
      stoppedJobs = countState ''Stopped'' jobs + countState ''Terminated'' jobs,
      j_successRate =
        (if countState ''Successful'' jobs + countState ''Faulted'' jobs > 0
         then Some (real (countState ''Successful'' jobs)
                      / real (countState ''Successful'' jobs + countState ''Faulted'' jobs) * 100)
         else None)\<rparr>"

subsection \<open>Per-queue statistics\<close>

text \<open>
  The per-queue statistics of a list of queue definitions, fetched one after the other in
  list order; a failing fetch ends the run.
\<close>

fun statsOfQueues ::
  "config \<Rightarrow> env \<Rightarrow> int option \<Rightarrow> entity list \<Rightarrow> state \<Rightarrow> queue_stats list result" where
  "statsOfQueues cfg env fid [] s = (Inr [], s)"
| "statsOfQueues cfg env fid (queue # rest) s =
     (case getQueueStats cfg env (e_Id queue) (e_Name queue) fid s of
        (Inl e, s1) \<Rightarrow> (Inl e, s1)
      | (Inr stats, s1) \<Rightarrow>
          (case statsOfQueues cfg env fid rest s1 of
             (Inl e, s2) \<Rightarrow> (Inl e, s2)
           | (Inr more_stats, s2) \<Rightarrow> (Inr (stats # more_stats), s2)))"

section \<open>Concrete configurations, servers and states\<close>

text \<open>The inputs at which the theorems below are instantiated and evaluated.\<close>

definition cfg0 :: config where
  "cfg0 = \<lparr>baseUrl = ''https://cloud.uipath.com/acme'', tenantName = ''Default'',
           clientId = ''id'', clientSecret = ''secret'', defaultFolderId = None\<rparr>"

definition url0 :: "string \<Rightarrow> url option" where
  "url0 u = (if u = ''https://cloud.uipath.com/acme''
             then Some \<lparr>protocol = ''https:'', host = ''cloud.uipath.com'', pathname = ''/acme''\<rparr>
             else None)"

definition idUrl0 :: string where
  "idUrl0 = ''https://cloud.uipath.com/acme/identity_/connect/token''"

text \<open>An identity server that grants \<^verbatim>\<open>tok2\<close> for an hour, in 20 ms\<close>

definition identity0 :: "call list \<Rightarrow> call \<Rightarrow> token_reply \<times> nat" where
  "identity0 h c = (TokenOk ''tok2'' 3600, 20)"

text \<open>An API server that answers every request with an empty page and no count\<close>

definition apiEmpty :: "call list \<Rightarrow> call \<Rightarrow> api_reply \<times> nat" where
  "apiEmpty h c = (ApiOk \<lparr>odata_value = [], odata_count = None\<rparr>, 5)"

definition env0 :: env where
  "env0 = \<lparr>parseURL = url0, parseDate = (\<lambda>d. None), identity = identity0, api = apiEmpty\<rparr>"

text \<open>A state with a token good for another 55 minutes, and one with 5 minutes left\<close>

definition sFresh :: state where
  "sFresh = \<lparr>accessToken = Some ''tok1'', tokenExpiresAt = Some 3600000, clock = 300000,
             calls = []\<rparr>"

definition sStale :: state where
  "sStale = \<lparr>accessToken = Some ''tok1'', tokenExpiresAt = Some 3600000, clock = 3300000,
             calls = []\<rparr>"

text \<open>A date parser that knows two timestamps, two minutes apart\<close>

definition date0 :: "string \<Rightarrow> int option" where
  "date0 d = (if d = ''2024-01-01T10:00:00Z'' then Some 1704103200000
              else if d = ''2024-01-01T10:02:00Z'' then Some 1704103320000
              else None)"

definition envD :: env where
  "envD = \<lparr>parseURL = url0, parseDate = date0, identity = identity0, api = apiEmpty\<rparr>"

text \<open>Two releases, and an API server that filters them by key or by name\<close>

definition relInvoices :: entity where
  "relInvoices = \<lparr>e_Id = 7, e_Name = ''Invoices'', e_Key = ''inv-key'', e_State = [],
                   e_StartTime = None, e_EndTime = None\<rparr>"

definition relPayroll :: entity where
  "relPayroll = \<lparr>e_Id = 8, e_Name = ''Payroll'', e_Key = ''pay-key'', e_State = [],
                  e_StartTime = None, e_EndTime = None\<rparr>"

definition page :: "entity list \<Rightarrow> api_reply \<times> nat" where
  "page xs = (ApiOk \<lparr>odata_value = xs, odata_count = None\<rparr>, 5)"

definition apiReleases :: "call list \<Rightarrow> call \<Rightarrow> api_reply \<times> nat" where
  "apiReleases h c =
     (case c of
        TokenCall u i k \<Rightarrow> page []
      | ApiCall m ep ps fid tok \<Rightarrow>
          if ps = Some [] then page [relInvoices, relPayroll]
          else if ps = Some [(''$filter'', ''ProcessKey eq '' @ [quote] @ ''inv-key'' @ [quote])]
            then page [relInvoices]
          else if ps = Some [(''$filter'', ''Name eq '' @ [quote] @ ''Payroll'' @ [quote])]
            then page [relPayroll]
          else page [])"

definition envR :: env where
  "envR = \<lparr>parseURL = url0, parseDate = date0, identity = identity0, api = apiReleases\<rparr>"

text \<open>
  API servers for the query fallback: one rejects every request with a message that
  holds \<^verbatim>\<open>Invalid OData\<close> but not \<^verbatim>\<open>Invalid OData query options\<close>; one rejects a
  request that asks for \<^verbatim>\<open>$count\<close> with the Orchestrator's message and answers any
  other with a page without a count; one does the same but sends a count of 7 unasked.
\<close>

definition apiBadFilter :: "call list \<Rightarrow> call \<Rightarrow> api_reply \<times> nat" where
  "apiBadFilter h c = (ApiHttpFail 400 ''Invalid OData filter'', 5)"

definition asksCount :: "call \<Rightarrow> bool" where
  "asksCount c =
     (case c of
        TokenCall u i k \<Rightarrow> False
      | ApiCall m ep ps fid tok \<Rightarrow>
          (case ps of None \<Rightarrow> False | Some kv \<Rightarrow> map_of kv ''$count'' = Some ''true''))"

definition apiNoCount :: "call list \<Rightarrow> call \<Rightarrow> api_reply \<times> nat" where
  "apiNoCount h c =
     (if asksCount c then (ApiHttpFail 400 ''Invalid OData query options.'', 5)
      else (ApiOk \<lparr>odata_value = [relInvoices], odata_count = None\<rparr>, 5))"

definition apiCountUnasked :: "call list \<Rightarrow> call \<Rightarrow> api_reply \<times> nat" where
  "apiCountUnasked h c =
     (if asksCount c then (ApiHttpFail 400 ''Invalid OData query options.'', 5)
      else (ApiOk \<lparr>odata_value = [relInvoices], odata_count = Some 7\<rparr>, 5))"

definition envBadFilter :: env where
  "envBadFilter = \<lparr>parseURL = url0, parseDate = date0, identity = identity0, api = apiBadFilter\<rparr>"

definition envNoCount :: env where
  "envNoCount = \<lparr>parseURL = url0, parseDate = date0, identity = identity0, api = apiNoCount\<rparr>"

definition envCountUnasked :: env where
  "envCountUnasked =
     \<lparr>parseURL = url0, parseDate = date0, identity = identity0, api = apiCountUnasked\<rparr>"

definition optsNew :: queue_items_options where
  "optsNew = \<lparr>qi_queueId = Some 3, qi_status = Some ''New'', qi_folderId = None,
               qi_top = Some 1, qi_skip = None, qi_orderBy = None\<rparr>"

definition optsFaulted :: jobs_options where
  "optsFaulted = \<lparr>j_state = Some ''Faulted'', j_releaseName = None, j_folderId = None,
                   j_top = None, j_skip = Some 20, j_orderBy = None\<rparr>"

text \<open>
  A tenant with six queues and a handful of jobs. Each queue holds 10 new, 5 successful and
  5 failed items and none abandoned; the server gives no count for the items in progress.
  The per-state job counts are 1 pending, 2 running, 6 successful, 2 faulted, 1 stopped and
  1 terminated.
\<close>

definition queueDef :: "int \<Rightarrow> string \<Rightarrow> entity" where
  "queueDef i n = \<lparr>e_Id = i, e_Name = n, e_Key = [], e_State = [], e_StartTime = None,
                   e_EndTime = None\<rparr>"

definition job :: "int \<Rightarrow> string \<Rightarrow> string option \<Rightarrow> string option \<Rightarrow> entity" where
  "job i st t0 t1 = \<lparr>e_Id = i, e_Name = [], e_Key = [], e_State = st, e_StartTime = t0,
                     e_EndTime = t1\<rparr>"

definition filterOf :: "params option \<Rightarrow> string" where
  "filterOf ps = (case ps of None \<Rightarrow> [] | Some kv \<Rightarrow> (case map_of kv ''$filter'' of None \<Rightarrow> [] | Some f \<Rightarrow> f))"

definition counted :: "nat \<Rightarrow> api_reply \<times> nat" where
  "counted n = (ApiOk \<lparr>odata_value = [], odata_count = Some n\<rparr>, 5)"

definition someJobs :: "entity list" where
  "someJobs =
     [job 1 ''Successful'' (Some ''2024-01-01T10:00:00Z'') (Some ''2024-01-01T10:02:00Z''),
      job 2 ''Successful'' (Some ''2024-01-01T10:00:00Z'') None,
      job 3 ''Faulted'' (Some ''2024-01-01T10:00:00Z'') (Some ''2024-01-01T10:02:00Z''),
      job 4 ''Stopped'' None None,
      job 5 ''Terminated'' None None,
      job 6 ''Pending'' None None,
      job 7 ''Suspended'' None None]"

definition apiTenant :: "call list \<Rightarrow> call \<Rightarrow> api_reply \<times> nat" where
  "apiTenant h c =
     (case c of
        TokenCall u i k \<Rightarrow> page []
      | ApiCall m ep ps fid tok \<Rightarrow>
          (let f = filterOf ps in
           if ep = ''/odata/QueueDefinitions'' then
             page [queueDef 1 ''Q1'', queueDef 2 ''Q2'', queueDef 3 ''Q3'', queueDef 4 ''Q4'',
                   queueDef 5 ''Q5'', queueDef 6 ''Q6'']
           else if ep = ''/odata/QueueItems'' then
             (if str_includes f ''New'' then counted 10
              else if str_includes f ''Successful'' then counted 5
              else if str_includes f ''Failed'' then counted 5
              else if str_includes f ''Abandoned'' then counted 0
              else page [])
           else if ep = ''/odata/Jobs'' then
             (if str_includes f ''Pending'' then counted 1
              else if str_includes f ''Running'' then counted 2
              else if str_includes f ''Successful'' then counted 6
              else if str_includes f ''Faulted'' then counted 2
              else if str_includes f ''Stopped'' then counted 1
              else if str_includes f ''Terminated'' then counted 1
              else page someJobs)
           else page []))"

definition envTenant :: env where
  "envTenant = \<lparr>parseURL = url0, parseDate = date0, identity = identity0, api = apiTenant\<rparr>"

text \<open>
  The same jobs behind a server that counts the pending and the running jobs (4 and 3)
  and gives no count for any other state.
\<close>

definition apiJobsUncounted :: "call list \<Rightarrow> call \<Rightarrow> api_reply \<times> nat" where
  "apiJobsUncounted h c =
     (case c of
        TokenCall u i k \<Rightarrow> page []
      | ApiCall m ep ps fid tok \<Rightarrow>
          (let f = filterOf ps in
           if str_includes f ''Pending'' then counted 4
           else if str_includes f ''Running'' then counted 3
           else page someJobs))"

definition envJobsUncounted :: env where
  "envJobsUncounted =
     \<lparr>parseURL = url0, parseDate = date0, identity = identity0, api = apiJobsUncounted\<rparr>"

text \<open>The endpoint and the filter of a call, to read a list of calls\<close>

definition endpointOf :: "call \<Rightarrow> string" where
  "endpointOf c = (case c of TokenCall u i k \<Rightarrow> u | ApiCall m ep ps fid tok \<Rightarrow> ep)"

definition callFilter :: "call \<Rightarrow> string" where
  "callFilter c = (case c of TokenCall u i k \<Rightarrow> [] | ApiCall m ep ps fid tok \<Rightarrow> filterOf ps)"

text \<open>A configuration whose base URL has no scheme: \<^verbatim>\<open>new URL\<close> rejects it\<close>

definition cfgNoScheme :: config where
  "cfgNoScheme = \<lparr>baseUrl = ''cloud.uipath.com/acme'', tenantName = ''Default'',
                   clientId = ''id'', clientSecret = ''secret'', defaultFolderId = None\<rparr>"

section \<open>Token reuse and refresh\<close>

lemma cachedToken_usable:
  "tokenUsable s \<Longrightarrow> \<exists>tok. accessToken s = Some tok \<and> cachedToken s = Some tok"
  by (auto simp: tokenUsable_def cachedToken_def buffer_def split: option.splits)

lemma cachedToken_not_usable: "\<not> tokenUsable s \<Longrightarrow> cachedToken s = None"
  by (auto simp: tokenUsable_def cachedToken_def buffer_def split: option.splits)

lemma getIdentityUrl_cfg0: "getIdentityUrl cfg0 env0 = Inr idUrl0"
  by (simp add: getIdentityUrl_def cfg0_def env0_def url0_def idUrl0_def)

lemma getIdentityUrl_cfgNoScheme: "getIdentityUrl cfgNoScheme env0 = Inl (Error ''Invalid URL'')"
  by (simp add: getIdentityUrl_def cfgNoScheme_def env0_def url0_def)

text \<open>
  With a base URL that \<^verbatim>\<open>new URL\<close> rejects and a token that is no longer usable,
  \<^verbatim>\<open>ensureToken\<close> throws while it computes the identity URL: the state is as it was and
  no token exchange has been issued.
\<close>

theorem ensureToken_bad_url_counterexample:
  "\<not> tokenUsable sStale
   \<and> ensureToken cfgNoScheme env0 sStale = (Inl (Error ''Invalid URL''), sStale)
   \<and> calls (snd (ensureToken cfgNoScheme env0 sStale)) = []"
  by code_simp

text \<open>
  C1, with the branch of a base URL that does not parse. \<^verbatim>\<open>ensureToken\<close> returns the
  cached token and leaves the state (so the list of network calls) as it was if and only
  if the cached token is usable. When it is not usable and the base URL parses, exactly
  one call is issued, the token exchange, and when the exchange succeeds the new token is
  returned and cached with \<open>expiresAt = now + expires_in * 1000\<close>, \<open>now\<close> being the clock
  when the response has arrived; with a base URL that parses, no call is issued if and
  only if the cached token is usable. When the token is not usable and the base URL does
  not parse, the error of the parser is thrown and the state is as it was.
\<close>

theorem ensureToken_cache:
  "((\<exists>tok. accessToken s = Some tok \<and> ensureToken cfg env s = (Inr tok, s))
      \<longleftrightarrow> tokenUsable s)
   \<and> (\<forall>identityUrl.
        \<not> tokenUsable s \<and> getIdentityUrl cfg env = Inr identityUrl
        \<longrightarrow> calls (snd (ensureToken cfg env s)) =
              calls s @ [TokenCall identityUrl (clientId cfg) (clientSecret cfg)]
            \<and> (\<forall>tok expires_in dt.
                  identity env (calls s)
                    (TokenCall identityUrl (clientId cfg) (clientSecret cfg))
                    = (TokenOk tok expires_in, dt)
                  \<longrightarrow> ensureToken cfg env s =
                        (Inr tok,
                         s\<lparr>clock := clock s + int dt,
                           calls := calls s
                                      @ [TokenCall identityUrl (clientId cfg) (clientSecret cfg)],
                           accessToken := Some tok,
                           tokenExpiresAt := Some (clock s + int dt + expires_in * 1000)\<rparr>)))
   \<and> (\<forall>identityUrl.
        getIdentityUrl cfg env = Inr identityUrl
        \<longrightarrow> (calls (snd (ensureToken cfg env s)) = calls s \<longleftrightarrow> tokenUsable s))
   \<and> (\<forall>e.
        \<not> tokenUsable s \<and> getIdentityUrl cfg env = Inl e
        \<longrightarrow> ensureToken cfg env s = (Inl e, s))"
proof (cases "tokenUsable s")
  case True
  then obtain tok where "accessToken s = Some tok" "cachedToken s = Some tok"
    using cachedToken_usable by blast
  with True show ?thesis by (simp add: ensureToken_def)
next
  case False
  then have c: "cachedToken s = None" by (rule cachedToken_not_usable)
  have b: "\<forall>identityUrl.
        \<not> tokenUsable s \<and> getIdentityUrl cfg env = Inr identityUrl
        \<longrightarrow> calls (snd (ensureToken cfg env s)) =
              calls s @ [TokenCall identityUrl (clientId cfg) (clientSecret cfg)]
            \<and> (\<forall>tok expires_in dt.
                  identity env (calls s)
                    (TokenCall identityUrl (clientId cfg) (clientSecret cfg))
                    = (TokenOk tok expires_in, dt)
                  \<longrightarrow> ensureToken cfg env s =
                        (Inr tok,
                         s\<lparr>clock := clock s + int dt,
                           calls := calls s
                                      @ [TokenCall identityUrl (clientId cfg) (clientSecret cfg)],
                           accessToken := Some tok,
                           tokenExpiresAt := Some (clock s + int dt + expires_in * 1000)\<rparr>))"
    by (auto simp: ensureToken_def c Let_def split: prod.splits token_reply.splits)
  have a: "\<not> (\<exists>tok. accessToken s = Some tok \<and> ensureToken cfg env s = (Inr tok, s))"
  proof
    assume "\<exists>tok. accessToken s = Some tok \<and> ensureToken cfg env s = (Inr tok, s)"
    then obtain tok where r: "ensureToken cfg env s = (Inr tok, s)" by blast
    show False
    proof (cases "getIdentityUrl cfg env")
      case (Inl err)
      with r show False by (simp add: ensureToken_def c)
    next
      case (Inr identityUrl)
      with b False have "calls (snd (ensureToken cfg env s)) =
          calls s @ [TokenCall identityUrl (clientId cfg) (clientSecret cfg)]"
        by blast
      with r show False by simp
    qed
  qed
  have d: "\<forall>identityUrl.
        getIdentityUrl cfg env = Inr identityUrl
        \<longrightarrow> (calls (snd (ensureToken cfg env s)) = calls s \<longleftrightarrow> tokenUsable s)"
    using False
    by (auto simp: ensureToken_def c Let_def split: prod.splits token_reply.splits)
  have e: "\<forall>e.
        \<not> tokenUsable s \<and> getIdentityUrl cfg env = Inl e
        \<longrightarrow> ensureToken cfg env s = (Inl e, s)"
    by (simp add: ensureToken_def c)
  from False a b d e show ?thesis by blast
qed

theorem ensureToken_cache_witness:
  "getIdentityUrl cfg0 env0 = Inr idUrl0
   \<and> tokenUsable sFresh
   \<and> ensureToken cfg0 env0 sFresh = (Inr ''tok1'', sFresh)
   \<and> \<not> tokenUsable sStale
   \<and> ensureToken cfg0 env0 sStale =
       (Inr ''tok2'',
        \<lparr>accessToken = Some ''tok2'', tokenExpiresAt = Some 6900020, clock = 3300020,
         calls = [TokenCall idUrl0 ''id'' ''secret'']\<rparr>)
   \<and> getIdentityUrl cfgNoScheme env0 = Inl (Error ''Invalid URL'')
   \<and> ensureToken cfgNoScheme env0 sStale = (Inl (Error ''Invalid URL''), sStale)
   \<and> ensureToken cfgNoScheme env0 sFresh = (Inr ''tok1'', sFresh)"
proof -
  have u: "tokenUsable sFresh" "\<not> tokenUsable sStale"
    by (simp_all add: tokenUsable_def sFresh_def sStale_def)
  have i: "identity env0 (calls sStale) (TokenCall idUrl0 (clientId cfg0) (clientSecret cfg0))
             = (TokenOk ''tok2'' 3600, 20)"
    by (simp add: env0_def identity0_def)
  note fresh = ensureToken_cache [of sFresh cfg0 env0]
  note stale = ensureToken_cache [of sStale cfg0 env0]
  note bad = ensureToken_cache [of sStale cfgNoScheme env0]
  note badFresh = ensureToken_cache [of sFresh cfgNoScheme env0]
  have a: "ensureToken cfg0 env0 sFresh = (Inr ''tok1'', sFresh)"
    using fresh u(1) by (auto simp: sFresh_def)
  have a': "ensureToken cfgNoScheme env0 sFresh = (Inr ''tok1'', sFresh)"
    using badFresh u(1) by (auto simp: sFresh_def)
  have b: "ensureToken cfg0 env0 sStale =
             (Inr ''tok2'',
              sStale\<lparr>clock := clock sStale + int 20,
                calls := calls sStale @ [TokenCall idUrl0 (clientId cfg0) (clientSecret cfg0)],
                accessToken := Some ''tok2'',
                tokenExpiresAt := Some (clock sStale + int 20 + 3600 * 1000)\<rparr>)"
    using stale u(2) i getIdentityUrl_cfg0 by blast
  have c: "ensureToken cfg0 env0 sStale =
             (Inr ''tok2'',
              \<lparr>accessToken = Some ''tok2'', tokenExpiresAt = Some 6900020, clock = 3300020,
               calls = [TokenCall idUrl0 ''id'' ''secret'']\<rparr>)"
    unfolding b by (simp add: sStale_def cfg0_def)
  have d: "ensureToken cfgNoScheme env0 sStale = (Inl (Error ''Invalid URL''), sStale)"
    using bad u(2) getIdentityUrl_cfgNoScheme by blast
  show ?thesis
    by (intro conjI) (rule getIdentityUrl_cfg0 getIdentityUrl_cfgNoScheme u a a' c d)+
qed

section \<open>Durations\<close>

lemma Math_round_round: "Math_round x = round x"
  by (simp add: Math_round_def round_def)

lemma Math_round_div: "Math_round (real_of_int n / 1000) = (n + 500) div 1000"
proof -
  have "real_of_int n / 1000 + 1 / 2 = real_of_int (n + 500) / real_of_int 1000"
    by (simp add: field_simps)
  then show ?thesis
    unfolding Math_round_def by (simp only: floor_divide_of_int_eq)
qed

text \<open>
  C5. The empty string is no timestamp (\<^verbatim>\<open>new Date("")\<close> is invalid). Then
  \<^verbatim>\<open>computeDuration\<close> is \<open>round ((end - start) / 1000)\<close> whenever both arguments are
  present and parse, and null whenever an argument is absent or does not parse; and for
  two timestamps with \<open>start \<le> end\<close> the result is an integer that is not negative.
\<close>

theorem computeDuration_round:
  assumes "parseDate env [] = None"
  shows "computeDuration env startTime endTime =
           (case startTime of
              None \<Rightarrow> None
            | Some st \<Rightarrow>
                (case endTime of
                   None \<Rightarrow> None
                 | Some en \<Rightarrow>
                     (case parseDate env st of
                        None \<Rightarrow> None
                      | Some start \<Rightarrow>
                          (case parseDate env en of
                             None \<Rightarrow> None
                           | Some end_ms \<Rightarrow>
                               Some (round (real_of_int (end_ms - start) / 1000))))))
       \<and> (\<forall>st en start end_ms.
             parseDate env st = Some start \<and> parseDate env en = Some end_ms \<and> start \<le> end_ms
             \<longrightarrow> (\<exists>d. computeDuration env (Some st) (Some en) = Some d \<and> 0 \<le> d))"
proof
  show "computeDuration env startTime endTime =
           (case startTime of
              None \<Rightarrow> None
            | Some st \<Rightarrow>
                (case endTime of
                   None \<Rightarrow> None
                 | Some en \<Rightarrow>
                     (case parseDate env st of
                        None \<Rightarrow> None
                      | Some start \<Rightarrow>
                          (case parseDate env en of
                             None \<Rightarrow> None
                           | Some end_ms \<Rightarrow>
                               Some (round (real_of_int (end_ms - start) / 1000))))))"
    using assms
    by (auto simp: computeDuration_def truthy_def Math_round_round split: option.splits)
next
  show "\<forall>st en start end_ms.
          parseDate env st = Some start \<and> parseDate env en = Some end_ms \<and> start \<le> end_ms
          \<longrightarrow> (\<exists>d. computeDuration env (Some st) (Some en) = Some d \<and> 0 \<le> d)"
  proof (intro allI impI)
    fix st en start end_ms
    assume h: "parseDate env st = Some start \<and> parseDate env en = Some end_ms \<and> start \<le> end_ms"
    then have ne: "st \<noteq> []" "en \<noteq> []" using assms by auto
    have "0 \<le> (end_ms - start + 500) div 1000"
      using h by (simp add: pos_imp_zdiv_nonneg_iff)
    then show "\<exists>d. computeDuration env (Some st) (Some en) = Some d \<and> 0 \<le> d"
      using h ne by (simp add: computeDuration_def truthy_def Math_round_div del: of_int_diff)
  qed
qed

theorem computeDuration_round_witness:
  "parseDate envD [] = None
   \<and> computeDuration envD (Some ''2024-01-01T10:00:00Z'') (Some ''2024-01-01T10:02:00Z'') = Some 120
   \<and> computeDuration envD None (Some ''2024-01-01T10:02:00Z'') = None
   \<and> computeDuration envD (Some ''yesterday'') (Some ''2024-01-01T10:02:00Z'') = None"
proof -
  have e: "parseDate envD [] = None"
    by (simp add: envD_def date0_def)
  have p: "parseDate envD ''2024-01-01T10:00:00Z'' = Some 1704103200000"
    "parseDate envD ''2024-01-01T10:02:00Z'' = Some 1704103320000"
    "parseDate envD ''yesterday'' = None"
    by (simp_all add: envD_def date0_def)
  note t = computeDuration_round [OF e, THEN conjunct1]
  have a: "computeDuration envD (Some ''2024-01-01T10:00:00Z'') (Some ''2024-01-01T10:02:00Z'')
             = Some 120"
    by (simp add: t p)
  have b: "computeDuration envD None (Some ''2024-01-01T10:02:00Z'') = None"
    by (simp add: t)
  have c: "computeDuration envD (Some ''yesterday'') (Some ''2024-01-01T10:02:00Z'') = None"
    by (simp add: t p)
  show ?thesis using e a b c by blast
qed

section \<open>Auxiliary facts\<close>

lemma getFolderId_idem: "getFolderId cfg (getFolderId cfg folderId) = getFolderId cfg folderId"
  by (simp add: getFolderId_def split: option.splits)

lemma pair_of_fst: "fst p = a \<Longrightarrow> p = (a, snd p)"
  by (cases p) simp

section \<open>Release resolution\<close>

text \<open>
  C7 at the empty string. \<^verbatim>\<open>getReleases\<close> tests \<^verbatim>\<open>if (processKey)\<close>, so for the
  empty \<^verbatim>\<open>nameOrKey\<close> the first request carries no filter at all: it is the unfiltered
  list of releases, no name query follows, and the first release of the list is returned
  although neither its key nor its name is the empty string.
\<close>

theorem findRelease_empty_string_unfiltered:
  "findReleaseByNameOrKey cfg0 envR [] None sFresh =
     (Inr (Some relInvoices),
      sFresh\<lparr>clock := 300005,
        calls := [ApiCall ''GET'' ''/odata/Releases'' (Some []) None ''tok1'']\<rparr>)
   \<and> e_Key relInvoices \<noteq> [] \<and> e_Name relInvoices \<noteq> []"
  by code_simp

text \<open>
  For a \<^verbatim>\<open>nameOrKey\<close> that is not the empty string the resolution is the documented
  one. The first request filters on \<^verbatim>\<open>ProcessKey eq '...'\<close>; if it fails the failure
  propagates; if it returns a release the first one is the result and the state is the one
  that request left (no further call); only on an empty page the second request,
  filtering on \<^verbatim>\<open>Name eq '...'\<close>, is issued, and its first release, or null, is the
  result.
\<close>

lemma findRelease_key_then_name:
  assumes "nameOrKey \<noteq> []"
  shows "findReleaseByNameOrKey cfg env nameOrKey folderId s =
           (case request cfg env ''GET'' ''/odata/Releases''
                   (Some [(''$filter'', eq_pred ''ProcessKey'' (encodeURIComponent nameOrKey))])
                   (getFolderId cfg folderId) s of
              (Inl e, s1) \<Rightarrow> (Inl e, s1)
            | (Inr byKey, s1) \<Rightarrow>
                (case odata_value byKey of
                   r # _ \<Rightarrow> (Inr (Some r), s1)
                 | [] \<Rightarrow>
                     (case request cfg env ''GET'' ''/odata/Releases''
                             (Some [(''$filter'', eq_pred ''Name'' (escapeODataString nameOrKey))])
                             (getFolderId cfg folderId) s1 of
                        (Inl e, s2) \<Rightarrow> (Inl e, s2)
                      | (Inr byName, s2) \<Rightarrow>
                          (Inr (case odata_value byName of [] \<Rightarrow> None | r # _ \<Rightarrow> Some r), s2))))"
  using assms
  by (simp add: findReleaseByNameOrKey_def getReleases_def getFolderId_idem truthy_def Let_def
        split: prod.splits sum.splits list.splits)

lemma findRelease_key_then_name_example:
  "findReleaseByNameOrKey cfg0 envR ''inv-key'' None sFresh =
     (Inr (Some relInvoices),
      sFresh\<lparr>clock := 300005,
        calls := [ApiCall ''GET'' ''/odata/Releases''
                    (Some [(''$filter'', ''ProcessKey eq '' @ [quote] @ ''inv-key'' @ [quote])])
                    None ''tok1'']\<rparr>)
   \<and> findReleaseByNameOrKey cfg0 envR ''Payroll'' None sFresh =
     (Inr (Some relPayroll),
      sFresh\<lparr>clock := 300010,
        calls := [ApiCall ''GET'' ''/odata/Releases''
                    (Some [(''$filter'', ''ProcessKey eq '' @ [quote] @ ''Payroll'' @ [quote])])
                    None ''tok1'',
                  ApiCall ''GET'' ''/odata/Releases''
                    (Some [(''$filter'', ''Name eq '' @ [quote] @ ''Payroll'' @ [quote])])
                    None ''tok1'']\<rparr>)"
proof -
  have k: "''inv-key'' \<noteq> []" and n: "''Payroll'' \<noteq> []" by simp_all
  have a: "findReleaseByNameOrKey cfg0 envR ''inv-key'' None sFresh =
     (Inr (Some relInvoices),
      sFresh\<lparr>clock := 300005,
        calls := [ApiCall ''GET'' ''/odata/Releases''
                    (Some [(''$filter'', ''ProcessKey eq '' @ [quote] @ ''inv-key'' @ [quote])])
                    None ''tok1'']\<rparr>)"
    unfolding findRelease_key_then_name [OF k]
    by code_simp
  have b: "findReleaseByNameOrKey cfg0 envR ''Payroll'' None sFresh =
     (Inr (Some relPayroll),
      sFresh\<lparr>clock := 300010,
        calls := [ApiCall ''GET'' ''/odata/Releases''
                    (Some [(''$filter'', ''ProcessKey eq '' @ [quote] @ ''Payroll'' @ [quote])])
                    None ''tok1'',
                  ApiCall ''GET'' ''/odata/Releases''
                    (Some [(''$filter'', ''Name eq '' @ [quote] @ ''Payroll'' @ [quote])])
                    None ''tok1'']\<rparr>)"
    unfolding findRelease_key_then_name [OF n]
    by code_simp
  show ?thesis using a b by blast
qed

section \<open>The route of getRobots\<close>

lemma getRobots_request:
  "getRobots cfg env options s =
     (case request cfg env ''GET'' (getRobots_endpoint (getFolderId cfg (r_folderId options)))
             (Some [(''$top'', String_nat (or_nat (r_top options) 100)),
                    (''$skip'', String_nat (or_nat (r_skip options) 0)),
                    (''$orderby'', or_str (r_orderBy options) ''Name asc''),
                    (''$count'', ''true'')]) None s of
        (Inl e, s1) \<Rightarrow> (Inl e, s1)
      | (Inr data, s1) \<Rightarrow> (Inr (odata_value data, odata_count data), s1))"
  by (simp add: getRobots_def Let_def)

lemma getRobots_endpoint_folder:
  "f \<noteq> 0 \<Longrightarrow>
   getRobots_endpoint (Some f) =
     ''/odata/Robots/UiPath.Server.Configuration.OData.GetRobotsFromFolder(folderId=''
       @ String_int f @ '')''"
  by (simp add: getRobots_endpoint_def)

lemma getRobots_endpoint_no_folder: "getRobots_endpoint None = ''/odata/Robots''"
  by (simp add: getRobots_endpoint_def)

text \<open>
  C9 at the folder id 0. The folder scope is supplied (\<^verbatim>\<open>getFolderId\<close> resolves it to
  0, and \<^verbatim>\<open>getHeaders\<close> would send it), yet the test \<^verbatim>\<open>effectiveFolderId ? ... : ...\<close>
  takes 0 for absent: the request goes to the generic route \<^verbatim>\<open>/odata/Robots\<close>. The
  same happens when 0 is the configured default.
\<close>

theorem getRobots_folder_zero_generic_route:
  "getFolderId cfg0 (Some 0) = Some 0
   \<and> getRobots cfg0 env0 \<lparr>r_folderId = Some 0, r_top = None, r_skip = None, r_orderBy = None\<rparr>
       sFresh =
       (Inr ([], None),
        sFresh\<lparr>clock := 300005,
          calls := [ApiCall ''GET'' ''/odata/Robots''
                      (Some [(''$top'', ''100''), (''$skip'', ''0''), (''$orderby'', ''Name asc''),
                             (''$count'', ''true'')]) None ''tok1'']\<rparr>)
   \<and> getFolderId (cfg0\<lparr>defaultFolderId := Some 0\<rparr>) None = Some 0
   \<and> getRobots (cfg0\<lparr>defaultFolderId := Some 0\<rparr>) env0
       \<lparr>r_folderId = None, r_top = None, r_skip = None, r_orderBy = None\<rparr> sFresh =
       (Inr ([], None),
        sFresh\<lparr>clock := 300005,
          calls := [ApiCall ''GET'' ''/odata/Robots''
                      (Some [(''$top'', ''100''), (''$skip'', ''0''), (''$orderby'', ''Name asc''),
                             (''$count'', ''true'')]) None ''tok1'']\<rparr>)"
  by code_simp

lemma getRobots_folder_seven:
  "getRobots cfg0 env0 \<lparr>r_folderId = Some 7, r_top = None, r_skip = None, r_orderBy = None\<rparr>
     sFresh =
     (Inr ([], None),
      sFresh\<lparr>clock := 300005,
        calls := [ApiCall ''GET''
                    ''/odata/Robots/UiPath.Server.Configuration.OData.GetRobotsFromFolder(folderId=7)''
                    (Some [(''$top'', ''100''), (''$skip'', ''0''), (''$orderby'', ''Name asc''),
                           (''$count'', ''true'')]) None ''tok1'']\<rparr>)"
  by code_simp

section \<open>Quoting of filter values\<close>

lemma escapeODataString_doubles: "escapeODataString v = quotesDoubled v"
  by (induction v) (simp_all add: quotesDoubled_def)

lemma encodeURIComponent_append:
  "encodeURIComponent (xs @ ys) = encodeURIComponent xs @ encodeURIComponent ys"
  by (induction xs) simp_all

lemma encodeURIComponent_keeps_quote:
  "encodeURIComponent (xs @ [quote] @ ys) = encodeURIComponent xs @ [quote] @ encodeURIComponent ys"
  by (simp add: encodeURIComponent_append uri_unreserved_def)

text \<open>The paths that go through \<^verbatim>\<open>escapeODataString\<close> double the quotes.\<close>

lemma audit_filters_doubled:
  "a \<noteq> [] \<Longrightarrow> u \<noteq> [] \<Longrightarrow> c \<noteq> [] \<Longrightarrow>
   getAuditLogs_filters (Some a) (Some u) (Some c) None None =
     [eq_pred ''Action'' (quotesDoubled a), eq_pred ''UserName'' (quotesDoubled u),
      eq_pred ''Component'' (quotesDoubled c)]"
  by (simp add: getAuditLogs_filters_def truthy_def escapeODataString_doubles)

lemma faulted_filters_doubled:
  "r \<noteq> [] \<Longrightarrow>
   getFaultedJobs_filters (Some r) None None =
     [''State eq '' @ [quote] @ ''Faulted'' @ [quote], eq_pred ''ReleaseName'' (quotesDoubled r)]"
  by (simp add: getFaultedJobs_filters_def truthy_def escapeODataString_doubles)

text \<open>The paths that go through \<^verbatim>\<open>encodeURIComponent\<close> leave a quote single.\<close>

lemma robot_logs_quote_single:
  "getRobotLogs_filters (Some (''a'' @ [quote] @ ''b'')) (Some (''I'' @ [quote])) None None =
     [eq_pred ''JobKey'' (''a'' @ [quote] @ ''b''), eq_pred ''Level'' (''I'' @ [quote])]"
  by code_simp

lemma jobs_release_quote_single:
  "getJobs_buildParams
     \<lparr>j_state = None, j_releaseName = Some (''O'' @ [quote] @ ''Brien''), j_folderId = None,
      j_top = None, j_skip = None, j_orderBy = None\<rparr> False None =
     [(''$top'', ''100''), (''$skip'', ''0''),
      (''$filter'', eq_pred ''ReleaseName'' (''O'' @ [quote] @ ''Brien''))]"
  by code_simp

text \<open>
  C8 at the queue name \<^verbatim>\<open>O'Brien\<close>. \<^verbatim>\<open>getQueueDefinitionByName\<close> sends the filter
  \<^verbatim>\<open>Name eq 'O'Brien'\<close>: \<^verbatim>\<open>encodeURIComponent\<close> leaves the quote alone and nothing
  doubles it, where doubling gives \<^verbatim>\<open>O''Brien\<close>.
\<close>

theorem queue_name_quote_not_doubled:
  "getQueueDefinitionByName cfg0 env0 (''O'' @ [quote] @ ''Brien'') None sFresh =
     (Inr None,
      sFresh\<lparr>clock := 300005,
        calls := [ApiCall ''GET'' ''/odata/QueueDefinitions''
                    (Some [(''$filter'', ''Name eq '' @ [quote] @ ''O'' @ [quote] @ ''Brien'' @ [quote])])
                    None ''tok1'']\<rparr>)
   \<and> quotesDoubled (''O'' @ [quote] @ ''Brien'') = ''O'' @ [quote, quote] @ ''Brien''
   \<and> getQueueDefinitionByName_params (''O'' @ [quote] @ ''Brien'')
       \<noteq> [(''$filter'', eq_pred ''Name'' (quotesDoubled (''O'' @ [quote] @ ''Brien'')))]"
  by code_simp

section \<open>The query fallback of getQueueItems and getJobs\<close>

text \<open>
  A failure that only holds \<^verbatim>\<open>Invalid OData\<close> is not retried: one request is issued
  and its error is the result. And the count after a retry is the one of the retry's
  response: 7 here, not null.
\<close>

theorem invalid_odata_counterexample:
  "getQueueItems cfg0 envBadFilter optsNew sFresh =
     (Inl (Error ''API request failed (400): Invalid OData filter''),
      sFresh\<lparr>clock := 300005,
        calls := [ApiCall ''GET'' ''/odata/QueueItems''
                    (Some [(''$top'', ''1''), (''$skip'', ''0''),
                           (''$orderby'', ''CreationTime desc''), (''$count'', ''true''),
                           (''$filter'',
                            ''QueueDefinitionId eq 3 and Status eq '' @ [quote] @ ''New'' @ [quote])])
                    None ''tok1'']\<rparr>)
   \<and> str_includes ''API request failed (400): Invalid OData filter'' ''Invalid OData''
   \<and> getJobs cfg0 envCountUnasked optsFaulted sFresh =
     (Inr ([relInvoices], Some 7),
      sFresh\<lparr>clock := 300010,
        calls := [ApiCall ''GET'' ''/odata/Jobs''
                    (Some [(''$top'', ''100''), (''$skip'', ''20''),
                           (''$orderby'', ''CreationTime desc''), (''$count'', ''true''),
                           (''$filter'', ''State eq '' @ [quote] @ ''Faulted'' @ [quote])])
                    None ''tok1'',
                  ApiCall ''GET'' ''/odata/Jobs''
                    (Some [(''$top'', ''100''), (''$skip'', ''20''),
                           (''$filter'', ''State eq '' @ [quote] @ ''Faulted'' @ [quote])])
                    None ''tok1'']\<rparr>)"
  by code_simp

lemma truthy_or_str: "d \<noteq> [] \<Longrightarrow> truthy (Some (or_str x d)) = Some (or_str x d)"
  by (simp add: truthy_def or_str_def split: option.splits)

lemma getQueueItems_params:
  "getQueueItems_buildParams options True (Some (or_str (qi_orderBy options) ''CreationTime desc''))
     = fullQuery (qi_top options) (qi_skip options) (qi_orderBy options) (queueItemsFilter options)"
  "getQueueItems_buildParams options False None
     = reducedQuery (qi_top options) (qi_skip options) (queueItemsFilter options)"
  by (simp_all add: getQueueItems_buildParams_def fullQuery_def reducedQuery_def
        queueItemsFilter_def truthy_or_str)
     (simp add: truthy_def)

lemma getJobs_params:
  "getJobs_buildParams options True (Some (or_str (j_orderBy options) ''CreationTime desc''))
     = fullQuery (j_top options) (j_skip options) (j_orderBy options) (jobsFilter options)"
  "getJobs_buildParams options False None
     = reducedQuery (j_top options) (j_skip options) (jobsFilter options)"
  by (simp_all add: getJobs_buildParams_def fullQuery_def reducedQuery_def jobsFilter_def
        truthy_or_str)
     (simp add: truthy_def)

text \<open>
  C4, with the substring the code matches. \<^verbatim>\<open>getQueueItems\<close> and \<^verbatim>\<open>getJobs\<close> issue
  the full query first; a failure whose message holds \<^verbatim>\<open>Invalid OData query options\<close>
  is retried once with \<^verbatim>\<open>$count\<close> and \<^verbatim>\<open>$orderby\<close> dropped, and the result carries
  the page and the count of the retry's response (null when it has none); every other
  failure, and a failure of the retry, propagates.
\<close>

theorem fallback_policy:
  "getQueueItems cfg env qoptions s =
     retryOnInvalidOptions cfg env ''/odata/QueueItems''
       (fullQuery (qi_top qoptions) (qi_skip qoptions) (qi_orderBy qoptions)
          (queueItemsFilter qoptions))
       (reducedQuery (qi_top qoptions) (qi_skip qoptions) (queueItemsFilter qoptions))
       (getFolderId cfg (qi_folderId qoptions)) s
   \<and> getJobs cfg env joptions s =
     retryOnInvalidOptions cfg env ''/odata/Jobs''
       (fullQuery (j_top joptions) (j_skip joptions) (j_orderBy joptions) (jobsFilter joptions))
       (reducedQuery (j_top joptions) (j_skip joptions) (jobsFilter joptions))
       (getFolderId cfg (j_folderId joptions)) s"
proof
  show "getQueueItems cfg env qoptions s =
     retryOnInvalidOptions cfg env ''/odata/QueueItems''
       (fullQuery (qi_top qoptions) (qi_skip qoptions) (qi_orderBy qoptions)
          (queueItemsFilter qoptions))
       (reducedQuery (qi_top qoptions) (qi_skip qoptions) (queueItemsFilter qoptions))
       (getFolderId cfg (qi_folderId qoptions)) s"
    unfolding getQueueItems_def retryOnInvalidOptions_def Let_def getQueueItems_params
    by (rule refl)
next
  show "getJobs cfg env joptions s =
     retryOnInvalidOptions cfg env ''/odata/Jobs''
       (fullQuery (j_top joptions) (j_skip joptions) (j_orderBy joptions) (jobsFilter joptions))
       (reducedQuery (j_top joptions) (j_skip joptions) (jobsFilter joptions))
       (getFolderId cfg (j_folderId joptions)) s"
    unfolding getJobs_def retryOnInvalidOptions_def Let_def getJobs_params
    by (rule refl)
qed

theorem fallback_policy_witness:
  "getQueueItems cfg0 envNoCount optsNew sFresh =
     (Inr ([relInvoices], None),
      sFresh\<lparr>clock := 300010,
        calls := [ApiCall ''GET'' ''/odata/QueueItems''
                    (Some [(''$top'', ''1''), (''$skip'', ''0''),
                           (''$orderby'', ''CreationTime desc''), (''$count'', ''true''),
                           (''$filter'',
                            ''QueueDefinitionId eq 3 and Status eq '' @ [quote] @ ''New'' @ [quote])])
                    None ''tok1'',
                  ApiCall ''GET'' ''/odata/QueueItems''
                    (Some [(''$top'', ''1''), (''$skip'', ''0''),
                           (''$filter'',
                            ''QueueDefinitionId eq 3 and Status eq '' @ [quote] @ ''New'' @ [quote])])
                    None ''tok1'']\<rparr>)
   \<and> getJobs cfg0 envBadFilter optsFaulted sFresh =
     (Inl (Error ''API request failed (400): Invalid OData filter''),
      sFresh\<lparr>clock := 300005,
        calls := [ApiCall ''GET'' ''/odata/Jobs''
                    (Some [(''$top'', ''100''), (''$skip'', ''20''),
                           (''$orderby'', ''CreationTime desc''), (''$count'', ''true''),
                           (''$filter'', ''State eq '' @ [quote] @ ''Faulted'' @ [quote])])
                    None ''tok1'']\<rparr>)"
  unfolding fallback_policy [of cfg0 envNoCount optsNew sFresh, THEN conjunct1]
    fallback_policy [of cfg0 envBadFilter _ _ optsFaulted, THEN conjunct2]
  by code_simp

section \<open>Queue statistics with unknown counts\<close>

lemma statusCounts_length:
  "statusCounts cfg env qid fid sts s = (Inr cs, s1) \<Longrightarrow> length cs = length sts"
proof (induction sts arbitrary: s cs s1)
  case Nil
  then show ?case by simp
next
  case (Cons st sts)
  then show ?case
    by (auto split: prod.splits sum.splits)
qed

lemma queueStatsLoop_counts:
  "queueStatsLoop cfg env qid fid sts stats s =
     (case statusCounts cfg env qid fid sts s of
        (Inl e, s1) \<Rightarrow> (Inl e, s1)
      | (Inr cs, s1) \<Rightarrow> (Inr (applyCounts sts cs stats), s1))"
proof (induction sts arbitrary: stats s)
  case Nil
  show ?case by simp
next
  case (Cons st sts)
  show ?case
    by (simp add: Cons.IH zeroIfUnknown_def Let_def split: prod.splits sum.splits option.splits)
qed

lemma list_of_length_5:
  assumes "length cs = 5"
  obtains c1 c2 c3 c4 c5 where "cs = [c1, c2, c3, c4, c5]"
proof -
  from assms obtain c1 r1 where "cs = c1 # r1" "length r1 = 4" by (cases cs) auto
  moreover then obtain c2 r2 where "r1 = c2 # r2" "length r2 = 3" by (cases r1) auto
  moreover then obtain c3 r3 where "r2 = c3 # r3" "length r3 = 2" by (cases r2) auto
  moreover then obtain c4 r4 where "r3 = c4 # r4" "length r4 = 1" by (cases r3) auto
  moreover then obtain c5 where "r4 = [c5]" by (cases r4) auto
  ultimately show ?thesis using that by simp
qed

lemma applyCounts_five:
  "applyCounts [''New'', ''InProgress'', ''Successful'', ''Failed'', ''Abandoned'']
     [c1, c2, c3, c4, c5]
     \<lparr>queueId = qid, queueName = qname, totalItems = 0, newItems = 0, inProgressItems = 0,
      successfulItems = 0, failedItems = 0, abandonedItems = 0, q_successRate = None\<rparr> =
   \<lparr>queueId = qid, queueName = qname,
    totalItems = zeroIfUnknown c1 + zeroIfUnknown c2 + zeroIfUnknown c3 + zeroIfUnknown c4
                   + zeroIfUnknown c5,
    newItems = zeroIfUnknown c1, inProgressItems = zeroIfUnknown c2,
    successfulItems = zeroIfUnknown c3, failedItems = zeroIfUnknown c4,
    abandonedItems = zeroIfUnknown c5, q_successRate = None\<rparr>"
  by (simp add: setQueueCount_def)

text \<open>
  C10. Whatever the five per-status queries return, \<^verbatim>\<open>getQueueStats\<close> fails only
  with the failure of one of them; when they all return, it returns the statistics of
  their counts with every unknown count taken as 0 (in its own field and in
  \<^verbatim>\<open>totalItems\<close>, and so in the success rate), in the state those five queries left: no
  other request is issued.
\<close>

theorem getQueueStats_unknown_as_zero:
  "(\<forall>e s1.
      statusCounts cfg env qid (getFolderId cfg folderId)
        [''New'', ''InProgress'', ''Successful'', ''Failed'', ''Abandoned''] s = (Inl e, s1)
      \<longrightarrow> getQueueStats cfg env qid qname folderId s = (Inl e, s1))
   \<and> (\<forall>cs s1.
      statusCounts cfg env qid (getFolderId cfg folderId)
        [''New'', ''InProgress'', ''Successful'', ''Failed'', ''Abandoned''] s = (Inr cs, s1)
      \<longrightarrow> (\<exists>c1 c2 c3 c4 c5.
             cs = [c1, c2, c3, c4, c5]
             \<and> getQueueStats cfg env qid qname folderId s =
                 (Inr (statsOfCounts qid qname (zeroIfUnknown c1) (zeroIfUnknown c2)
                         (zeroIfUnknown c3) (zeroIfUnknown c4) (zeroIfUnknown c5)), s1)))"
proof (intro conjI allI impI)
  fix e s1
  assume "statusCounts cfg env qid (getFolderId cfg folderId)
            [''New'', ''InProgress'', ''Successful'', ''Failed'', ''Abandoned''] s = (Inl e, s1)"
  then show "getQueueStats cfg env qid qname folderId s = (Inl e, s1)"
    by (simp add: getQueueStats_def queueStatuses_def queueStatsLoop_counts Let_def
          del: statusCounts.simps)
next
  fix cs s1
  assume h: "statusCounts cfg env qid (getFolderId cfg folderId)
            [''New'', ''InProgress'', ''Successful'', ''Failed'', ''Abandoned''] s = (Inr cs, s1)"
  have "length cs = 5" using statusCounts_length [OF h] by simp
  then obtain c1 c2 c3 c4 c5 where cs: "cs = [c1, c2, c3, c4, c5]"
    by (rule list_of_length_5)
  have "getQueueStats cfg env qid qname folderId s =
          (Inr (statsOfCounts qid qname (zeroIfUnknown c1) (zeroIfUnknown c2)
                  (zeroIfUnknown c3) (zeroIfUnknown c4) (zeroIfUnknown c5)), s1)"
    using h unfolding cs
    by (simp add: getQueueStats_def queueStatuses_def queueStatsLoop_counts Let_def
          applyCounts_five statsOfCounts_def del: statusCounts.simps applyCounts.simps)
  with cs show "\<exists>c1 c2 c3 c4 c5.
             cs = [c1, c2, c3, c4, c5]
             \<and> getQueueStats cfg env qid qname folderId s =
                 (Inr (statsOfCounts qid qname (zeroIfUnknown c1) (zeroIfUnknown c2)
                         (zeroIfUnknown c3) (zeroIfUnknown c4) (zeroIfUnknown c5)), s1)"
    by blast
qed

theorem getQueueStats_unknown_as_zero_witness:
  "fst (statusCounts cfg0 envTenant 3 None
          [''New'', ''InProgress'', ''Successful'', ''Failed'', ''Abandoned''] sFresh)
     = Inr [Some 10, None, Some 5, Some 5, Some 0]
   \<and> getQueueStats cfg0 envTenant 3 ''Q3'' None sFresh =
       (Inr \<lparr>queueId = 3, queueName = ''Q3'', totalItems = 20, newItems = 10,
             inProgressItems = 0, successfulItems = 5, failedItems = 5, abandonedItems = 0,
             q_successRate = Some 50\<rparr>,
        snd (statusCounts cfg0 envTenant 3 None
               [''New'', ''InProgress'', ''Successful'', ''Failed'', ''Abandoned''] sFresh))
   \<and> length (calls (snd (statusCounts cfg0 envTenant 3 None
               [''New'', ''InProgress'', ''Successful'', ''Failed'', ''Abandoned''] sFresh))) = 5"
proof -
  define sEnd where
    "sEnd = snd (statusCounts cfg0 envTenant 3 None
                   [''New'', ''InProgress'', ''Successful'', ''Failed'', ''Abandoned''] sFresh)"
  have f: "fst (statusCounts cfg0 envTenant 3 None
                  [''New'', ''InProgress'', ''Successful'', ''Failed'', ''Abandoned''] sFresh)
             = Inr [Some 10, None, Some 5, Some 5, Some 0]"
    by code_simp
  have n: "length (calls (snd (statusCounts cfg0 envTenant 3 None
               [''New'', ''InProgress'', ''Successful'', ''Failed'', ''Abandoned''] sFresh))) = 5"
    by code_simp
  have g: "getFolderId cfg0 None = None"
    by (simp add: getFolderId_def cfg0_def)
  have sc: "statusCounts cfg0 envTenant 3 (getFolderId cfg0 None)
              [''New'', ''InProgress'', ''Successful'', ''Failed'', ''Abandoned''] sFresh
              = (Inr [Some 10, None, Some 5, Some 5, Some 0], sEnd)"
    unfolding g sEnd_def using f by (simp add: prod_eq_iff del: statusCounts.simps)
  from getQueueStats_unknown_as_zero [of cfg0 envTenant 3 None sFresh "''Q3''",
      THEN conjunct2, rule_format, OF sc]
  have "getQueueStats cfg0 envTenant 3 ''Q3'' None sFresh =
          (Inr (statsOfCounts 3 ''Q3'' 10 0 5 5 0), sEnd)"
    by (auto simp: zeroIfUnknown_def)
  then have q: "getQueueStats cfg0 envTenant 3 ''Q3'' None sFresh =
       (Inr \<lparr>queueId = 3, queueName = ''Q3'', totalItems = 20, newItems = 10,
             inProgressItems = 0, successfulItems = 5, failedItems = 5, abandonedItems = 0,
             q_successRate = Some 50\<rparr>, sEnd)"
    by (simp add: statsOfCounts_def)
  show ?thesis using f q n unfolding sEnd_def by blast
qed

section \<open>Success rates\<close>

lemma setQueueCount_rate: "q_successRate (setQueueCount st n stats) = q_successRate stats"
  by (simp add: setQueueCount_def)

lemma queueStatsLoop_rate:
  "queueStatsLoop cfg env qid fid sts stats s = (Inr st', s') \<Longrightarrow>
   q_successRate st' = q_successRate stats"
proof (induction sts arbitrary: stats s)
  case Nil
  then show ?case by simp
next
  case (Cons status sts)
  then show ?case
    by (auto simp: Let_def setQueueCount_rate split: prod.splits sum.splits dest!: Cons.IH)
qed

lemma getQueueStats_rate:
  assumes "getQueueStats cfg env qid qname folderId s = (Inr st, s')"
  shows "q_successRate st = successRateOf (successfulItems st) (failedItems st)"
proof -
  obtain r s1 where l: "queueStatsLoop cfg env qid (getFolderId cfg folderId) queueStatuses
      \<lparr>queueId = qid, queueName = qname, totalItems = 0, newItems = 0, inProgressItems = 0,
       successfulItems = 0, failedItems = 0, abandonedItems = 0, q_successRate = None\<rparr> s = (r, s1)"
    by (cases "queueStatsLoop cfg env qid (getFolderId cfg folderId) queueStatuses
      \<lparr>queueId = qid, queueName = qname, totalItems = 0, newItems = 0, inProgressItems = 0,
       successfulItems = 0, failedItems = 0, abandonedItems = 0, q_successRate = None\<rparr> s")
  show ?thesis
  proof (cases r)
    case (Inl e)
    with assms l show ?thesis by (simp add: getQueueStats_def Let_def)
  next
    case (Inr stats)
    with l have "q_successRate stats = None"
      using queueStatsLoop_rate by fastforce
    with assms l Inr show ?thesis
      by (auto simp: getQueueStats_def Let_def successRateOf_def split: if_splits)
  qed
qed

lemma setJobCount_rate: "j_successRate (setJobCount st n stats) = j_successRate stats"
  by (simp add: setJobCount_def)

lemma jobStatsLoop_rate:
  "jobStatsLoop cfg env fid sts stats s = ((fb, st'), s') \<Longrightarrow>
   j_successRate st' = j_successRate stats"
proof (induction sts arbitrary: stats s)
  case Nil
  then show ?case by simp
next
  case (Cons st sts)
  then show ?case
    by (auto simp: setJobCount_rate split: prod.splits sum.splits option.splits dest!: Cons.IH)
qed

lemma countJob_rate: "j_successRate (countJob j stats) = j_successRate stats"
  by (simp add: countJob_def)

lemma tallyJobs_rate: "j_successRate (tallyJobs jobs stats) = j_successRate stats"
  by (induction jobs arbitrary: stats) (simp_all add: countJob_rate)

lemma jobSuccessRate_rate:
  "j_successRate stats = None \<Longrightarrow>
   j_successRate (jobSuccessRate stats) =
     successRateOf (successfulJobs (jobSuccessRate stats)) (faultedJobs (jobSuccessRate stats))"
  by (simp add: jobSuccessRate_def successRateOf_def Let_def)

lemma getJobStats_rate:
  assumes "getJobStats cfg env folderId s = (Inr js, s')"
  shows "j_successRate js = successRateOf (successfulJobs js) (faultedJobs js)"
proof -
  obtain fb stats s1 where l: "jobStatsLoop cfg env (getFolderId cfg folderId) jobStates
      \<lparr>totalJobs = 0, pendingJobs = 0, runningJobs = 0, successfulJobs = 0, faultedJobs = 0,
       stoppedJobs = 0, j_successRate = None\<rparr> s = ((fb, stats), s1)"
    by (metis prod.exhaust)
  then have n: "j_successRate stats = None"
    using jobStatsLoop_rate by fastforce
  show ?thesis
  proof (cases fb)
    case False
    with assms l have "js = jobSuccessRate stats"
      by (simp add: getJobStats_def Let_def)
    with n show ?thesis by (simp add: jobSuccessRate_rate)
  next
    case True
    with assms l obtain jobs where
      "js = jobSuccessRate (tallyJobs jobs
              (stats\<lparr>totalJobs := 0, pendingJobs := 0, runningJobs := 0, successfulJobs := 0,
                 faultedJobs := 0, stoppedJobs := 0, totalJobs := length jobs\<rparr>))"
      by (auto simp: getJobStats_def Let_def split: prod.splits sum.splits)
    with n show ?thesis by (simp add: jobSuccessRate_rate tallyJobs_rate)
  qed
qed

text \<open>
  C2. Whenever one of the four computations returns, its rate is null if the successful
  and the failed (or faulted) outcomes it reports sum to zero, and otherwise their
  successful share times 100: the queue statistics, the job statistics, the process
  performance, and the queue rate and the job rate of the dashboard summary.
\<close>

theorem success_rates:
  "(\<forall>st s'. getQueueStats cfg env qid qname folderId s = (Inr st, s')
      \<longrightarrow> q_successRate st = successRateOf (successfulItems st) (failedItems st))
   \<and> (\<forall>js s'. getJobStats cfg env folderId s = (Inr js, s')
      \<longrightarrow> j_successRate js = successRateOf (successfulJobs js) (faultedJobs js))
   \<and> (\<forall>pp s'. getProcessPerformance cfg env pname folderId topN s = (Inr pp, s')
      \<longrightarrow> p_successRate pp = successRateOf (successful pp) (faulted pp))
   \<and> (\<forall>d s'. getDashboardSummary cfg env folderId s = (Inr d, s')
      \<longrightarrow> successRateQueues d =
            successRateOf (items_Successful (queueItemsByStatus d))
              (items_Failed (queueItemsByStatus d))
          \<and> successRateJobs d =
            successRateOf (jobs_Successful (jobsByState d)) (jobs_Faulted (jobsByState d)))"
proof (intro conjI allI impI)
  fix st s'
  assume "getQueueStats cfg env qid qname folderId s = (Inr st, s')"
  then show "q_successRate st = successRateOf (successfulItems st) (failedItems st)"
    by (rule getQueueStats_rate)
next
  fix js s'
  assume "getJobStats cfg env folderId s = (Inr js, s')"
  then show "j_successRate js = successRateOf (successfulJobs js) (faultedJobs js)"
    by (rule getJobStats_rate)
next
  fix pp s'
  assume "getProcessPerformance cfg env pname folderId topN s = (Inr pp, s')"
  then show "p_successRate pp = successRateOf (successful pp) (faulted pp)"
    by (auto simp: getProcessPerformance_def Let_def successRateOf_def
          split: prod.splits sum.splits)
next
  fix d s'
  assume "getDashboardSummary cfg env folderId s = (Inr d, s')"
  then show "successRateQueues d =
            successRateOf (items_Successful (queueItemsByStatus d))
              (items_Failed (queueItemsByStatus d))"
    by (auto simp: getDashboardSummary_def Let_def successRateOf_def
          split: prod.splits sum.splits)
next
  fix d s'
  assume "getDashboardSummary cfg env folderId s = (Inr d, s')"
  then obtain js s1 s2 where
    j: "getJobStats cfg env (getFolderId cfg folderId) s1 = (Inr js, s2)"
    and d: "successRateJobs d = j_successRate js"
      "jobs_Successful (jobsByState d) = successfulJobs js"
      "jobs_Faulted (jobsByState d) = faultedJobs js"
    by (auto simp: getDashboardSummary_def Let_def split: prod.splits sum.splits)
  from getJobStats_rate [OF j] d
  show "successRateJobs d =
          successRateOf (jobs_Successful (jobsByState d)) (jobs_Faulted (jobsByState d))"
    by simp
qed

theorem success_rates_witness:
  "fst (getQueueStats cfg0 envTenant 3 ''Q3'' None sFresh) =
     Inr \<lparr>queueId = 3, queueName = ''Q3'', totalItems = 20, newItems = 10,
          inProgressItems = 0, successfulItems = 5, failedItems = 5, abandonedItems = 0,
          q_successRate = Some 50\<rparr>
   \<and> successRateOf 5 5 = Some 50
   \<and> fst (getQueueStats cfg0 env0 3 ''Q3'' None sFresh) =
     Inr \<lparr>queueId = 3, queueName = ''Q3'', totalItems = 0, newItems = 0,
          inProgressItems = 0, successfulItems = 0, failedItems = 0, abandonedItems = 0,
          q_successRate = None\<rparr>
   \<and> successRateOf 0 0 = None
   \<and> fst (getJobStats cfg0 envTenant None sFresh) =
     Inr \<lparr>totalJobs = 13, pendingJobs = 1, runningJobs = 2, successfulJobs = 6,
          faultedJobs = 2, stoppedJobs = 2, j_successRate = Some 75\<rparr>
   \<and> successRateOf 6 2 = Some 75
   \<and> (\<exists>pp. fst (getProcessPerformance cfg0 envTenant ''Invoices'' None None sFresh) = Inr pp
         \<and> successful pp = 2 \<and> faulted pp = 1 \<and> p_successRate pp = successRateOf 2 1)
   \<and> successRateOf 2 1 = Some (200 / 3)
   \<and> fst (getDashboardSummary cfg0 envTenant None sFresh) =
     Inr \<lparr>totalQueues = 6, totalQueueItems = 100,
          queueItemsByStatus =
            \<lparr>items_New = 50, items_InProgress = 0, items_Successful = 25, items_Failed = 25\<rparr>,
          d_totalJobs = 13,
          jobsByState =
            \<lparr>jobs_Pending = 1, jobs_Running = 2, jobs_Successful = 6, jobs_Faulted = 2,
             jobs_Stopped = 2\<rparr>,
          activeJobs = 3, successRateJobs = Some 75, successRateQueues = Some 50\<rparr>
   \<and> successRateOf 25 25 = Some 50"
proof -
  have r: "successRateOf 5 5 = Some 50" "successRateOf 0 0 = None" "successRateOf 6 2 = Some 75"
    "successRateOf 2 1 = Some (200 / 3)" "successRateOf 25 25 = Some 50"
    by (simp_all add: successRateOf_def)
  have q: "fst (getQueueStats cfg0 envTenant 3 ''Q3'' None sFresh) =
     Inr \<lparr>queueId = 3, queueName = ''Q3'', totalItems = 20, newItems = 10,
          inProgressItems = 0, successfulItems = 5, failedItems = 5, abandonedItems = 0,
          q_successRate = Some 50\<rparr>"
    by code_simp
  have z: "fst (getQueueStats cfg0 env0 3 ''Q3'' None sFresh) =
     Inr \<lparr>queueId = 3, queueName = ''Q3'', totalItems = 0, newItems = 0,
          inProgressItems = 0, successfulItems = 0, failedItems = 0, abandonedItems = 0,
          q_successRate = None\<rparr>"
    by code_simp
  have j: "fst (getJobStats cfg0 envTenant None sFresh) =
     Inr \<lparr>totalJobs = 13, pendingJobs = 1, runningJobs = 2, successfulJobs = 6,
          faultedJobs = 2, stoppedJobs = 2, j_successRate = Some 75\<rparr>"
    by code_simp
  have d: "fst (getDashboardSummary cfg0 envTenant None sFresh) =
     Inr \<lparr>totalQueues = 6, totalQueueItems = 100,
          queueItemsByStatus =
            \<lparr>items_New = 50, items_InProgress = 0, items_Successful = 25, items_Failed = 25\<rparr>,
          d_totalJobs = 13,
          jobsByState =
            \<lparr>jobs_Pending = 1, jobs_Running = 2, jobs_Successful = 6, jobs_Faulted = 2,
             jobs_Stopped = 2\<rparr>,
          activeJobs = 3, successRateJobs = Some 75, successRateQueues = Some 50\<rparr>"
    by code_simp
  obtain pp where p: "fst (getProcessPerformance cfg0 envTenant ''Invoices'' None None sFresh)
      = Inr pp" and pf: "successful pp = 2" "faulted pp = 1"
  proof
    show "fst (getProcessPerformance cfg0 envTenant ''Invoices'' None None sFresh) =
      Inr \<lparr>processName = ''Invoices'', totalExecutions = 7, successful = 2, faulted = 1,
           stopped = 2, running = 0, pending = 1, p_successRate = Some (200 / 3),
           avgDurationSeconds = Some 120, minDurationSeconds = Some 120,
           maxDurationSeconds = Some 120, recentJobs = someJobs\<rparr>"
      by code_simp
  qed simp_all
  from success_rates [of cfg0 envTenant _ _ _ sFresh "''Invoices''" None,
      THEN conjunct2, THEN conjunct2, THEN conjunct1, rule_format, OF pair_of_fst [OF p]] pf
  have "p_successRate pp = successRateOf 2 1" by simp
  with p pf r q z j d show ?thesis by blast
qed

section \<open>The fallback of the job statistics\<close>

lemma jobStatsLoop_flag:
  "jobStatsLoop cfg env fid sts stats s = ((fb, st'), s1) \<Longrightarrow>
   perStateQueries cfg env fid sts s = (fb, s1)"
proof (induction sts arbitrary: stats s)
  case Nil
  then show ?case by simp
next
  case (Cons st sts)
  then show ?case
    by (auto split: prod.splits sum.splits option.splits)
qed

lemma tallyJobs_fields:
  "totalJobs (tallyJobs jobs stats) = totalJobs stats"
  "pendingJobs (tallyJobs jobs stats) = pendingJobs stats + countState ''Pending'' jobs"
  "runningJobs (tallyJobs jobs stats) = runningJobs stats + countState ''Running'' jobs"
  "successfulJobs (tallyJobs jobs stats) = successfulJobs stats + countState ''Successful'' jobs"
  "faultedJobs (tallyJobs jobs stats) = faultedJobs stats + countState ''Faulted'' jobs"
  "stoppedJobs (tallyJobs jobs stats) =
     stoppedJobs stats + countState ''Stopped'' jobs + countState ''Terminated'' jobs"
  "j_successRate (tallyJobs jobs stats) = j_successRate stats"
  by (induction jobs arbitrary: stats; simp add: countJob_def countState_def)+

lemma tally_reset:
  assumes "j_successRate stats = None" "totalJobs stats = length jobs" "pendingJobs stats = 0"
    "runningJobs stats = 0" "successfulJobs stats = 0" "faultedJobs stats = 0"
    "stoppedJobs stats = 0"
  shows "jobSuccessRate (tallyJobs jobs stats) = clientTally jobs"
  using assms
  by (intro job_stats.equality)
     (simp_all add: jobSuccessRate_def clientTally_def tallyJobs_fields Let_def)

lemma jobStatsLoop_keeps_rate:
  "jobStatsLoop cfg env fid sts stats s = ((fb, st'), s') \<Longrightarrow>
   j_successRate st' = j_successRate stats"
proof (induction sts arbitrary: stats s)
  case Nil
  then show ?case by simp
next
  case (Cons st sts)
  then show ?case
    by (auto simp: setJobCount_def split: prod.splits sum.splits option.splits dest!: Cons.IH)
qed

text \<open>
  C3. If one of the per-state count queries fails or returns no count, \<^verbatim>\<open>getJobStats\<close>
  issues the query for up to 1000 jobs (\<^verbatim>\<open>$top=1000\<close>, no state filter) in the state the
  per-state queries left; a failure of that query is the result, and otherwise the
  result is the client-side tally of the records it returned, in which nothing of the
  per-state counts remains.
\<close>

theorem getJobStats_fallback:
  "\<forall>s1.
     perStateQueries cfg env (getFolderId cfg folderId)
       [''Pending'', ''Running'', ''Successful'', ''Faulted'', ''Stopped'', ''Terminated''] s
       = (True, s1)
     \<longrightarrow> getJobStats cfg env folderId s =
         (case getJobs cfg env
                 \<lparr>j_state = None, j_releaseName = None, j_folderId = getFolderId cfg folderId,
                  j_top = Some 1000, j_skip = None, j_orderBy = None\<rparr> s1 of
            (Inl e, s2) \<Rightarrow> (Inl e, s2)
          | (Inr (jobs, count), s2) \<Rightarrow> (Inr (clientTally jobs), s2))"
proof (intro allI impI)
  fix s1
  assume h: "perStateQueries cfg env (getFolderId cfg folderId)
       [''Pending'', ''Running'', ''Successful'', ''Faulted'', ''Stopped'', ''Terminated''] s
       = (True, s1)"
  obtain fb stats s1' where l: "jobStatsLoop cfg env (getFolderId cfg folderId) jobStates
      \<lparr>totalJobs = 0, pendingJobs = 0, runningJobs = 0, successfulJobs = 0, faultedJobs = 0,
       stoppedJobs = 0, j_successRate = None\<rparr> s = ((fb, stats), s1')"
    by (metis prod.exhaust)
  from jobStatsLoop_flag [OF l] h have fb: "fb" and s1: "s1' = s1"
    by (simp_all add: jobStates_def del: perStateQueries.simps)
  from jobStatsLoop_keeps_rate [OF l] have n: "j_successRate stats = None"
    by simp
  show "getJobStats cfg env folderId s =
         (case getJobs cfg env
                 \<lparr>j_state = None, j_releaseName = None, j_folderId = getFolderId cfg folderId,
                  j_top = Some 1000, j_skip = None, j_orderBy = None\<rparr> s1 of
            (Inl e, s2) \<Rightarrow> (Inl e, s2)
          | (Inr (jobs, count), s2) \<Rightarrow> (Inr (clientTally jobs), s2))"
    using l fb s1
    by (simp add: getJobStats_def Let_def tally_reset n split: prod.splits sum.splits)
qed

theorem getJobStats_fallback_witness:
  "fst (perStateQueries cfg0 envJobsUncounted None
          [''Pending'', ''Running'', ''Successful'', ''Faulted'', ''Stopped'', ''Terminated'']
          sFresh) = True
   \<and> fst (getJobStats cfg0 envJobsUncounted None sFresh) = Inr (clientTally someJobs)
   \<and> clientTally someJobs =
       \<lparr>totalJobs = 7, pendingJobs = 1, runningJobs = 0, successfulJobs = 2, faultedJobs = 1,
        stoppedJobs = 2, j_successRate = Some (200 / 3)\<rparr>
   \<and> map callFilter (calls (snd (getJobStats cfg0 envJobsUncounted None sFresh))) =
       [''State eq '' @ [quote] @ ''Pending'' @ [quote],
        ''State eq '' @ [quote] @ ''Running'' @ [quote],
        ''State eq '' @ [quote] @ ''Successful'' @ [quote], []]
   \<and> last (calls (snd (getJobStats cfg0 envJobsUncounted None sFresh))) =
       ApiCall ''GET'' ''/odata/Jobs''
         (Some [(''$top'', ''1000''), (''$skip'', ''0''), (''$orderby'', ''CreationTime desc''),
                (''$count'', ''true'')]) None ''tok1''
   \<and> fst (perStateQueries cfg0 envBadFilter None
          [''Pending'', ''Running'', ''Successful'', ''Faulted'', ''Stopped'', ''Terminated'']
          sFresh) = True
   \<and> fst (getJobStats cfg0 envBadFilter None sFresh) =
       Inl (Error ''API request failed (400): Invalid OData filter'')"
proof -
  have g: "getFolderId cfg0 None = None"
    by (simp add: getFolderId_def cfg0_def)
  have f: "fst (perStateQueries cfg0 envJobsUncounted None
          [''Pending'', ''Running'', ''Successful'', ''Faulted'', ''Stopped'', ''Terminated'']
          sFresh) = True"
    "fst (perStateQueries cfg0 envBadFilter None
          [''Pending'', ''Running'', ''Successful'', ''Faulted'', ''Stopped'', ''Terminated'']
          sFresh) = True"
    by code_simp+
  have c: "clientTally someJobs =
       \<lparr>totalJobs = 7, pendingJobs = 1, runningJobs = 0, successfulJobs = 2, faultedJobs = 1,
        stoppedJobs = 2, j_successRate = Some (200 / 3)\<rparr>"
    by code_simp
  note a = getJobStats_fallback [of cfg0 envJobsUncounted None sFresh, unfolded g, rule_format,
      OF pair_of_fst [OF f(1)]]
  note b = getJobStats_fallback [of cfg0 envBadFilter None sFresh, unfolded g, rule_format,
      OF pair_of_fst [OF f(2)]]
  have j: "fst (getJobStats cfg0 envJobsUncounted None sFresh) = Inr (clientTally someJobs)"
    unfolding a by code_simp
  have k: "fst (getJobStats cfg0 envBadFilter None sFresh) =
       Inl (Error ''API request failed (400): Invalid OData filter'')"
    unfolding b by code_simp
  have w: "map callFilter (calls (snd (getJobStats cfg0 envJobsUncounted None sFresh))) =
       [''State eq '' @ [quote] @ ''Pending'' @ [quote],
        ''State eq '' @ [quote] @ ''Running'' @ [quote],
        ''State eq '' @ [quote] @ ''Successful'' @ [quote], []]"
    by code_simp
  have x: "last (calls (snd (getJobStats cfg0 envJobsUncounted None sFresh))) =
       ApiCall ''GET'' ''/odata/Jobs''
         (Some [(''$top'', ''1000''), (''$skip'', ''0''), (''$orderby'', ''CreationTime desc''),
                (''$count'', ''true'')]) None ''tok1''"
    by code_simp
  show ?thesis
    by (intro conjI) (rule f c j k w x)+
qed

section \<open>The sampling cap of the dashboard summary\<close>

lemma statsOfQueues_length:
  "statsOfQueues cfg env fid qs s = (Inr sts, s') \<Longrightarrow> length sts = length qs"
proof (induction qs arbitrary: s sts s')
  case Nil
  then show ?case by simp
next
  case (Cons q qs)
  then show ?case by (auto split: prod.splits sum.splits)
qed

lemma setQueueCount_queueId: "queueId (setQueueCount st n stats) = queueId stats"
  by (simp add: setQueueCount_def)

lemma queueStatsLoop_queueId:
  "queueStatsLoop cfg env qid fid sts stats s = (Inr st', s') \<Longrightarrow> queueId st' = queueId stats"
proof (induction sts arbitrary: stats s)
  case Nil
  then show ?case by simp
next
  case (Cons status sts)
  then show ?case
    by (auto simp: Let_def setQueueCount_queueId split: prod.splits sum.splits dest!: Cons.IH)
qed

lemma getQueueStats_queueId:
  "getQueueStats cfg env qid qname folderId s = (Inr st, s') \<Longrightarrow> queueId st = qid"
  by (auto simp: getQueueStats_def Let_def split: prod.splits sum.splits if_splits
        dest!: queueStatsLoop_queueId)

lemma statsOfQueues_ids:
  "statsOfQueues cfg env fid qs s = (Inr sts, s') \<Longrightarrow> map queueId sts = map e_Id qs"
proof (induction qs arbitrary: s sts s')
  case Nil
  then show ?case by simp
next
  case (Cons q qs)
  then show ?case
    by (auto split: prod.splits sum.splits dest: getQueueStats_queueId)
qed

lemma dashboardLoop_sums:
  "dashboardLoop cfg env fid qs (byStatus, n) s =
     (case statsOfQueues cfg env fid qs s of
        (Inl e, s1) \<Rightarrow> (Inl e, s1)
      | (Inr sts, s1) \<Rightarrow>
          (Inr (\<lparr>items_New = items_New byStatus + sum_list (map newItems sts),
                 items_InProgress = items_InProgress byStatus + sum_list (map inProgressItems sts),
                 items_Successful = items_Successful byStatus + sum_list (map successfulItems sts),
                 items_Failed = items_Failed byStatus + sum_list (map failedItems sts)\<rparr>,
                n + sum_list (map totalItems sts)), s1))"
proof (induction qs arbitrary: byStatus n s)
  case Nil
  show ?case by simp
next
  case (Cons q qs)
  show ?case
    by (simp add: Cons.IH add.assoc split: prod.splits sum.splits)
qed

text \<open>
  C6. When \<^verbatim>\<open>getDashboardSummary\<close> returns, it has fetched the queue definitions and
  the job statistics and then the statistics of the first five queue definitions (of all
  of them when there are fewer), in list order and of no other queue; the per-status
  totals and \<^verbatim>\<open>totalQueueItems\<close> are the sums over those statistics, and
  \<^verbatim>\<open>totalQueues\<close> is the number of all queue definitions.
\<close>

theorem dashboard_first_five:
  "\<forall>d s'.
     getDashboardSummary cfg env folderId s = (Inr d, s')
     \<longrightarrow> (\<exists>queues s1 jobStats s2 sts.
            getQueueDefinitions cfg env (getFolderId cfg folderId) s = (Inr queues, s1)
            \<and> getJobStats cfg env (getFolderId cfg folderId) s1 = (Inr jobStats, s2)
            \<and> statsOfQueues cfg env (getFolderId cfg folderId) (take 5 queues) s2 = (Inr sts, s')
            \<and> length sts = min 5 (length queues)
            \<and> map queueId sts = map e_Id (take 5 queues)
            \<and> totalQueues d = length queues
            \<and> totalQueueItems d = sum_list (map totalItems sts)
            \<and> items_New (queueItemsByStatus d) = sum_list (map newItems sts)
            \<and> items_InProgress (queueItemsByStatus d) = sum_list (map inProgressItems sts)
            \<and> items_Successful (queueItemsByStatus d) = sum_list (map successfulItems sts)
            \<and> items_Failed (queueItemsByStatus d) = sum_list (map failedItems sts))"
proof (intro allI impI)
  fix d s'
  assume h: "getDashboardSummary cfg env folderId s = (Inr d, s')"
  let ?fid = "getFolderId cfg folderId"
  from h obtain queues s1 where q: "getQueueDefinitions cfg env ?fid s = (Inr queues, s1)"
    by (auto simp: getDashboardSummary_def Let_def split: prod.splits sum.splits)
  from h q obtain jobStats s2 where j: "getJobStats cfg env ?fid s1 = (Inr jobStats, s2)"
    by (auto simp: getDashboardSummary_def Let_def split: prod.splits sum.splits)
  from h q j obtain sts where
    st: "statsOfQueues cfg env ?fid (take 5 queues) s2 = (Inr sts, s')"
    and d: "totalQueues d = length queues"
      "totalQueueItems d = sum_list (map totalItems sts)"
      "items_New (queueItemsByStatus d) = sum_list (map newItems sts)"
      "items_InProgress (queueItemsByStatus d) = sum_list (map inProgressItems sts)"
      "items_Successful (queueItemsByStatus d) = sum_list (map successfulItems sts)"
      "items_Failed (queueItemsByStatus d) = sum_list (map failedItems sts)"
    by (auto simp: getDashboardSummary_def Let_def dashboardLoop_sums
          split: prod.splits sum.splits)
  from statsOfQueues_length [OF st] have l: "length sts = min 5 (length queues)"
    by (simp add: min.commute)
  from statsOfQueues_ids [OF st] have i: "map queueId sts = map e_Id (take 5 queues)" .
  from q j st l i d show "\<exists>queues s1 jobStats s2 sts.
            getQueueDefinitions cfg env (getFolderId cfg folderId) s = (Inr queues, s1)
            \<and> getJobStats cfg env (getFolderId cfg folderId) s1 = (Inr jobStats, s2)
            \<and> statsOfQueues cfg env (getFolderId cfg folderId) (take 5 queues) s2 = (Inr sts, s')
            \<and> length sts = min 5 (length queues)
            \<and> map queueId sts = map e_Id (take 5 queues)
            \<and> totalQueues d = length queues
            \<and> totalQueueItems d = sum_list (map totalItems sts)
            \<and> items_New (queueItemsByStatus d) = sum_list (map newItems sts)
            \<and> items_InProgress (queueItemsByStatus d) = sum_list (map inProgressItems sts)
            \<and> items_Successful (queueItemsByStatus d) = sum_list (map successfulItems sts)
            \<and> items_Failed (queueItemsByStatus d) = sum_list (map failedItems sts)"
    by blast
qed

theorem dashboard_first_five_witness:
  "fst (getDashboardSummary cfg0 envTenant None sFresh) =
     Inr \<lparr>totalQueues = 6, totalQueueItems = 100,
          queueItemsByStatus =
            \<lparr>items_New = 50, items_InProgress = 0, items_Successful = 25, items_Failed = 25\<rparr>,
          d_totalJobs = 13,
          jobsByState =
            \<lparr>jobs_Pending = 1, jobs_Running = 2, jobs_Successful = 6, jobs_Faulted = 2,
             jobs_Stopped = 2\<rparr>,
          activeJobs = 3, successRateJobs = Some 75, successRateQueues = Some 50\<rparr>
   \<and> (\<exists>queues (sts :: queue_stats list).
         fst (getQueueDefinitions cfg0 envTenant None sFresh) = Inr queues
         \<and> length queues = 6
         \<and> map queueId sts = [1, 2, 3, 4, 5]
         \<and> sum_list (map totalItems sts) = 100
         \<and> sum_list (map newItems sts) = 50)
   \<and> length (filter (\<lambda>c. endpointOf c = ''/odata/QueueItems'')
               (calls (snd (getDashboardSummary cfg0 envTenant None sFresh)))) = 25
   \<and> filter (\<lambda>c. str_includes (callFilter c) ''QueueDefinitionId eq 6'')
        (calls (snd (getDashboardSummary cfg0 envTenant None sFresh))) = []"
proof -
  define D where "D =
     \<lparr>totalQueues = 6, totalQueueItems = 100,
      queueItemsByStatus =
        \<lparr>items_New = 50, items_InProgress = 0, items_Successful = 25, items_Failed = 25\<rparr>,
      d_totalJobs = 13,
      jobsByState =
        \<lparr>jobs_Pending = 1, jobs_Running = 2, jobs_Successful = 6, jobs_Faulted = 2,
         jobs_Stopped = 2\<rparr>,
      activeJobs = 3, successRateJobs = Some 75, successRateQueues = Some 50\<rparr>"
  have g: "getFolderId cfg0 None = None"
    by (simp add: getFolderId_def cfg0_def)
  have e: "fst (getDashboardSummary cfg0 envTenant None sFresh) = Inr D"
    unfolding D_def by code_simp
  have n: "length (filter (\<lambda>c. endpointOf c = ''/odata/QueueItems'')
               (calls (snd (getDashboardSummary cfg0 envTenant None sFresh)))) = 25"
    by code_simp
  have m: "filter (\<lambda>c. str_includes (callFilter c) ''QueueDefinitionId eq 6'')
        (calls (snd (getDashboardSummary cfg0 envTenant None sFresh))) = []"
    by code_simp
  have qd: "fst (getQueueDefinitions cfg0 envTenant None sFresh) =
      Inr [queueDef 1 ''Q1'', queueDef 2 ''Q2'', queueDef 3 ''Q3'', queueDef 4 ''Q4'',
           queueDef 5 ''Q5'', queueDef 6 ''Q6'']"
    by code_simp
  from dashboard_first_five [of cfg0 envTenant None sFresh, unfolded g, rule_format,
      OF pair_of_fst [OF e]]
  obtain queues s1 jobStats s2 sts where all:
    "getQueueDefinitions cfg0 envTenant None sFresh = (Inr queues, s1)
     \<and> getJobStats cfg0 envTenant None s1 = (Inr jobStats, s2)
     \<and> statsOfQueues cfg0 envTenant None (take 5 queues) s2 =
         (Inr sts, snd (getDashboardSummary cfg0 envTenant None sFresh))
     \<and> length sts = min 5 (length queues)
     \<and> map queueId sts = map e_Id (take 5 queues)
     \<and> totalQueues D = length queues
     \<and> totalQueueItems D = sum_list (map totalItems sts)
     \<and> items_New (queueItemsByStatus D) = sum_list (map newItems sts)
     \<and> items_InProgress (queueItemsByStatus D) = sum_list (map inProgressItems sts)
     \<and> items_Successful (queueItemsByStatus D) = sum_list (map successfulItems sts)
     \<and> items_Failed (queueItemsByStatus D) = sum_list (map failedItems sts)"
    by (elim exE) (rule that, assumption)
  from all have q: "getQueueDefinitions cfg0 envTenant None sFresh = (Inr queues, s1)"
    and i: "map queueId sts = map e_Id (take 5 queues)"
    and t: "totalQueueItems D = sum_list (map totalItems sts)"
      "items_New (queueItemsByStatus D) = sum_list (map newItems sts)"
    by simp_all
  from q qd have qs: "queues = [queueDef 1 ''Q1'', queueDef 2 ''Q2'', queueDef 3 ''Q3'',
      queueDef 4 ''Q4'', queueDef 5 ''Q5'', queueDef 6 ''Q6'']"
    by simp
  have a: "map queueId sts = [1, 2, 3, 4, 5]"
    unfolding i qs by (simp add: queueDef_def)
  have b: "length queues = 6" unfolding qs by simp
  have c: "fst (getQueueDefinitions cfg0 envTenant None sFresh) = Inr queues"
    using q by simp
  have s: "sum_list (map totalItems sts) = 100" "sum_list (map newItems sts) = 50"
    using t by (simp_all add: D_def)
  have ex: "\<exists>queues (sts :: queue_stats list).
         fst (getQueueDefinitions cfg0 envTenant None sFresh) = Inr queues
         \<and> length queues = 6
         \<and> map queueId sts = [1, 2, 3, 4, 5]
         \<and> sum_list (map totalItems sts) = 100
         \<and> sum_list (map newItems sts) = 50"
  proof (intro exI conjI)
    show "fst (getQueueDefinitions cfg0 envTenant None sFresh) = Inr queues" by (rule c)
    show "length queues = 6" by (rule b)
    show "map queueId sts = [1, 2, 3, 4, 5]" by (rule a)
    show "sum_list (map totalItems sts) = 100" by (rule s(1))
    show "sum_list (map newItems sts) = 50" by (rule s(2))
  qed
  from e have e': "fst (getDashboardSummary cfg0 envTenant None sFresh) =
     Inr \<lparr>totalQueues = 6, totalQueueItems = 100,
          queueItemsByStatus =
            \<lparr>items_New = 50, items_InProgress = 0, items_Successful = 25, items_Failed = 25\<rparr>,
          d_totalJobs = 13,
          jobsByState =
            \<lparr>jobs_Pending = 1, jobs_Running = 2, jobs_Successful = 6, jobs_Faulted = 2,
             jobs_Stopped = 2\<rparr>,
          activeJobs = 3, successRateJobs = Some 75, successRateQueues = Some 50\<rparr>"
    by (simp only: D_def)
  show ?thesis
    by (intro conjI) (rule e' ex n m)+
qed

end
